theory Spec2Isabelle
  imports Complex_Main "HOL-Library.Code_Target_Nat"
begin

section \<open>JavaScript values\<close>

text \<open>
  A JavaScript number is NaN, an infinity or a finite value. The controller only compares
  numbers, multiplies a timestamp by 1000 and tests them for truthiness.
\<close>

datatype number = NaN | NegInfinity | Finite rat | PosInfinity

fun number_lt :: "number \<Rightarrow> number \<Rightarrow> bool" where
  "number_lt NaN _ = False"
| "number_lt _ NaN = False"
| "number_lt NegInfinity NegInfinity = False"
| "number_lt NegInfinity _ = True"
| "number_lt PosInfinity _ = False"
| "number_lt (Finite a) NegInfinity = False"
| "number_lt (Finite a) (Finite b) = (a < b)"
| "number_lt (Finite a) PosInfinity = True"

definition number_truthy :: "number \<Rightarrow> bool" where
  "number_truthy n = (n \<noteq> NaN \<and> n \<noteq> Finite 0)"

text \<open>An optional string is truthy when it is present and not empty.\<close>

definition truthy :: "string option \<Rightarrow> bool" where
  "truthy s = (case s of None \<Rightarrow> False | Some x \<Rightarrow> x \<noteq> [])"

text \<open>
  \<open>String.prototype.toLowerCase\<close> on the ASCII strings the controller compares
  (hexadecimal addresses): the letters A to Z are mapped to a to z.
\<close>

definition lowerChar :: "char \<Rightarrow> char" where
  "lowerChar c =
     (let n = (of_char c :: nat) in if 65 \<le> n \<and> n \<le> 90 then char_of (n + 32) else c)"

definition toLowerCase :: "string \<Rightarrow> string" where
  "toLowerCase s = map lowerChar s"

text \<open>\<open>Array.prototype.findIndex\<close>: the index of the first match, or -1.\<close>

fun findIndexFrom :: "('a \<Rightarrow> bool) \<Rightarrow> 'a list \<Rightarrow> int \<Rightarrow> int" where
  "findIndexFrom P [] i = - 1"
| "findIndexFrom P (x # xs) i = (if P x then i else findIndexFrom P xs (i + 1))"

definition findIndex :: "('a \<Rightarrow> bool) \<Rightarrow> 'a list \<Rightarrow> int" where
  "findIndex P xs = findIndexFrom P xs 0"

text \<open>\<open>Array.prototype.filter\<close> with a callback that also reads the index.\<close>

fun filterIndexedFrom :: "('a \<Rightarrow> int \<Rightarrow> bool) \<Rightarrow> 'a list \<Rightarrow> int \<Rightarrow> 'a list" where
  "filterIndexedFrom P [] i = []"
| "filterIndexedFrom P (x # xs) i =
     (if P x i then x # filterIndexedFrom P xs (i + 1) else filterIndexedFrom P xs (i + 1))"

definition filterIndexed :: "('a \<Rightarrow> int \<Rightarrow> bool) \<Rightarrow> 'a list \<Rightarrow> 'a list" where
  "filterIndexed P xs = filterIndexedFrom P xs 0"

text \<open>
  \<open>array.splice (start, 1)\<close>: a negative \<open>start\<close> counts from the end of the array.
\<close>

definition splice1 :: "int \<Rightarrow> 'a list \<Rightarrow> 'a list" where
  "splice1 start xs =
     (let n = int (length xs);
          s = (if start < 0 then max (n + start) 0 else min start n)
      in take (nat s) xs @ drop (nat s + 1) xs)"

text \<open>
  \<open>addHexPrefix\<close> of ethereumjs-util: the string itself when it starts with \<open>0x\<close>,
  otherwise \<open>0x\<close> followed by the string.
\<close>

definition addHexPrefix :: "string \<Rightarrow> string" where
  "addHexPrefix str = (if take 2 str = ''0x'' then str else ''0x'' @ str)"

text \<open>Hexadecimal digits, as \<open>parseInt (s, 16)\<close> reads and \<open>toString (16)\<close> writes them.\<close>

definition hexDigitValue :: "char \<Rightarrow> nat option" where
  "hexDigitValue c =
     (let n = (of_char c :: nat)
      in if 48 \<le> n \<and> n \<le> 57 then Some (n - 48)
         else if 97 \<le> n \<and> n \<le> 102 then Some (n - 87)
         else if 65 \<le> n \<and> n \<le> 70 then Some (n - 55)
         else None)"

fun takeHexDigits :: "string \<Rightarrow> nat list" where
  "takeHexDigits [] = []"
| "takeHexDigits (c # cs) =
     (case hexDigitValue c of None \<Rightarrow> [] | Some d \<Rightarrow> d # takeHexDigits cs)"

definition digitsValue :: "nat \<Rightarrow> nat list \<Rightarrow> nat" where
  "digitsValue base ds = foldl (\<lambda>acc d. base * acc + d) 0 ds"

definition hexDigit :: "nat \<Rightarrow> char" where
  "hexDigit d = ''0123456789abcdef'' ! (d mod 16)"

fun natToString16 :: "nat \<Rightarrow> string" where
  "natToString16 n =
     (if n < 16 then [hexDigit n] else natToString16 (n div 16) @ [hexDigit (n mod 16)])"

declare natToString16.simps [simp del]

subsection \<open>The number arithmetic of the fee bump\<close>

text \<open>
  \<open>stopTransaction\<close> and \<open>speedUpTransaction\<close> compute the new gas price as
  \<open>parseInt (`${parseInt (gasPrice, 16) * RATE}`, 10).toString (16)\<close>, in double precision.
  A double has 53 significant bits: \<open>nearestDouble n\<close> is the natural number \<open>n\<close> rounded to
  53 significant bits, ties to the even significand. A number of \<open>2 ^ 1024\<close> or more after
  rounding is \<open>Infinity\<close>.
\<close>

fun bitlen :: "nat \<Rightarrow> nat" where
  "bitlen n = (if n = 0 then 0 else Suc (bitlen (n div 2)))"

declare bitlen.simps [simp del]

definition nearestDouble :: "nat \<Rightarrow> nat" where
  "nearestDouble n =
     (if bitlen n \<le> 53 then n
      else (let s = bitlen n - 53; q = n div 2 ^ s; r = n mod 2 ^ s; half = 2 ^ (s - 1)
            in (if r > half \<or> (r = half \<and> odd q) then q + 1 else q) * 2 ^ s))"

text \<open>
  The value of \<open>parseInt (s, 16)\<close>: not a number, an infinity, or an integer with its sign
  (\<open>True\<close> is negative). Leading white space, a sign and the prefix \<open>0x\<close> are skipped, the
  longest run of hexadecimal digits is read, and the integer is rounded to a double.
\<close>

datatype ParsedInt = IntNaN | IntInfinity bool | IntValue bool nat

definition isWhiteSpace :: "char \<Rightarrow> bool" where
  "isWhiteSpace c = ((of_char c :: nat) \<in> set [9, 10, 11, 12, 13, 32])"

definition parseInt16 :: "string \<Rightarrow> ParsedInt" where
  "parseInt16 s =
     (let s1 = dropWhile isWhiteSpace s;
          negative = (take 1 s1 = ''-'');
          s2 = (if take 1 s1 = ''-'' \<or> take 1 s1 = ''+'' then drop 1 s1 else s1);
          s3 = (if take 2 s2 = ''0x'' \<or> take 2 s2 = ''0X'' then drop 2 s2 else s2);
          digits = takeHexDigits s3
      in if digits = [] then IntNaN
         else (let d = nearestDouble (digitsValue 16 digits)
               in if d \<ge> 2 ^ 1024 then IntInfinity negative else IntValue negative d))"

text \<open>
  The two rates are doubles: \<open>CANCEL_RATE = 1.5\<close> is \<open>3 / 2\<close>, and \<open>SPEED_UP_RATE = 1.1\<close> is
  the double nearest to \<open>11 / 10\<close>, which is \<open>2476979795053773 / 2 ^ 51\<close>. A rate is the
  numerator \<open>rateNumerator\<close> over \<open>2 ^ rateExponent\<close>.
\<close>

datatype Rate = CANCEL_RATE | SPEED_UP_RATE

fun rateNumerator :: "Rate \<Rightarrow> nat" where
  "rateNumerator CANCEL_RATE = 3"
| "rateNumerator SPEED_UP_RATE = 2476979795053773"

fun rateExponent :: "Rate \<Rightarrow> nat" where
  "rateExponent CANCEL_RATE = 1"
| "rateExponent SPEED_UP_RATE = 51"

text \<open>
  \<open>parseInt (`${v}`, 10)\<close> for a double \<open>v\<close> of at least \<open>10 ^ 21\<close>, which is an integer:
  the template literal writes \<open>v\<close> in exponent notation with the fewest digits that read
  back as \<open>v\<close>, and \<open>parseInt\<close> stops at the decimal point or at the letter e, so that the
  result is the first digit. \<open>decimalLength\<close> counts the decimal digits of a number.
\<close>

fun decimalLength :: "nat \<Rightarrow> nat" where
  "decimalLength n = (if n < 10 then 1 else Suc (decimalLength (n div 10)))"

declare decimalLength.simps [simp del]

definition firstDigit :: "nat \<Rightarrow> nat" where
  "firstDigit m = m div 10 ^ (decimalLength m - 1)"

fun shortestFirstDigit :: "nat \<Rightarrow> nat \<Rightarrow> nat \<Rightarrow> nat" where
  "shortestFirstDigit 0 k v = firstDigit v"
| "shortestFirstDigit (Suc fuel) k v =
     (let scale = 10 ^ (decimalLength v - k); lo = v div scale
      in if nearestDouble (lo * scale) = v then firstDigit lo
         else if nearestDouble ((lo + 1) * scale) = v then firstDigit (lo + 1)
         else shortestFirstDigit fuel (Suc k) v)"

declare shortestFirstDigit.simps [simp del]

text \<open>
  \<open>parseInt (`${v}`, 10)\<close> for the double \<open>v = p / 2 ^ k\<close>, where \<open>v\<close> is zero or at least
  one: below \<open>10 ^ 21\<close> the literal is in positional notation and the result is the integer
  part of \<open>v\<close>; from \<open>10 ^ 21\<close> on it is the first digit. Seventeen digits always read back.
\<close>

definition truncateViaString :: "nat \<Rightarrow> nat \<Rightarrow> nat" where
  "truncateViaString p k =
     (if p < 10 ^ 21 * 2 ^ k then p div 2 ^ k else shortestFirstDigit 17 1 (p div 2 ^ k))"

text \<open>
  The new gas price. Not a number and the infinities end as the string \<open>NaN\<close>, which
  \<open>addHexPrefix\<close> turns into \<open>0xNaN\<close>.
\<close>

definition bumpedGasPrice :: "Rate \<Rightarrow> string option \<Rightarrow> string" where
  "bumpedGasPrice rate existingGasPrice =
     addHexPrefix
       (case parseInt16 (case existingGasPrice of None \<Rightarrow> ''0x0'' | Some g \<Rightarrow> g) of
          IntNaN \<Rightarrow> ''NaN''
        | IntInfinity negative \<Rightarrow> ''NaN''
        | IntValue negative existingGasPriceDecimal \<Rightarrow>
            (let p = nearestDouble (existingGasPriceDecimal * rateNumerator rate)
             in if p \<ge> 2 ^ (1024 + rateExponent rate) then ''NaN''
                else (let i = truncateViaString p (rateExponent rate)
                      in (if negative \<and> i \<noteq> 0 then ''-'' else '''') @ natToString16 i)))"

section \<open>Big numbers\<close>

text \<open>
  The class \<open>BN\<close> that \<open>estimateGas\<close> computes with is that of the library bn.js, which
  ethereumjs-util exports; it is not code of the controller. A \<open>BN\<close> is an array of words
  of 26 bits, the least significant first, with the number \<open>length\<close> of the words in use:
  here, the list of the words in use. A number that the library builds from a string, or
  by \<open>mul\<close> and \<open>div\<close>, is stripped: its last word is not zero, unless the number is zero,
  which is the one word 0. \<open>wordsOf\<close> is the stripped number of a value.
\<close>

type_synonym BN = "nat list"

fun wordsOf :: "nat \<Rightarrow> BN" where
  "wordsOf n = (if n < 67108864 then [n] else n mod 67108864 # wordsOf (n div 67108864))"

declare wordsOf.simps [simp del]

definition valueOf :: "BN \<Rightarrow> nat" where
  "valueOf ws = foldr (\<lambda>w v. w + 67108864 * v) ws 0"

text \<open>
  A positive double is written \<open>dbl_numerator / 2 ^ dbl_exponent\<close>. The two factors of
  \<open>estimateGas\<close>: \<open>0.9\<close> is the double \<open>8106479329266893 / 2 ^ 53\<close>, and \<open>1.5\<close> is \<open>3 / 2\<close>.
\<close>

record Double =
  dbl_numerator :: nat
  dbl_exponent :: nat

definition NINE_TENTHS :: Double where
  "NINE_TENTHS = \<lparr> dbl_numerator = 8106479329266893, dbl_exponent = 53 \<rparr>"

definition THREE_HALVES :: Double where
  "THREE_HALVES = \<lparr> dbl_numerator = 3, dbl_exponent = 1 \<rparr>"

text \<open>
  \<open>muln (num)\<close> is \<open>imuln (num)\<close> on a copy of the number. \<open>imuln\<close> goes through the words
  in use with a carry that starts at 0, and for every word computes

  \<^item> \<open>w = (words[i] | 0) * num\<close>, a double: the product rounded to 53 significant bits;
  \<^item> \<open>lo = (w & 0x3ffffff) + (carry & 0x3ffffff)\<close>, where \<open>&\<close> drops the fraction of \<open>w\<close>;
  \<^item> \<open>carry >>= 26\<close>, \<open>carry += (w / 0x4000000) | 0\<close>, \<open>carry += lo >>> 26\<close>;
  \<^item> \<open>words[i] = lo & 0x3ffffff\<close>.

  A carry that is left after the last word becomes a new word. The library asserts that
  \<open>num\<close> is a number below \<open>0x4000000\<close>, not that it is an integer, and it does not strip
  the result: the fraction of the product is dropped in every word, and a last word that
  has become zero stays in use.
\<close>

definition imulnStep :: "Double \<Rightarrow> BN \<times> nat \<Rightarrow> nat \<Rightarrow> BN \<times> nat" where
  "imulnStep num state word =
     (case state of
        (ws, carry) \<Rightarrow>
          (let w = nearestDouble (word * dbl_numerator num);
               lo = (w div 2 ^ dbl_exponent num) mod 67108864 + carry mod 67108864;
               carry1 = carry div 67108864;
               carry2 = carry1 + (w div 2 ^ dbl_exponent num) div 67108864;
               carry3 = carry2 + lo div 67108864
           in (ws @ [lo mod 67108864], carry3)))"

definition muln :: "BN \<Rightarrow> Double \<Rightarrow> BN" where
  "muln bn num =
     (case foldl (imulnStep num) ([], 0) bn of
        (ws, carry) \<Rightarrow> if carry \<noteq> 0 then ws @ [carry] else ws)"

text \<open>
  \<open>cmp\<close> of two numbers that are not negative is \<open>ucmp\<close>: the number with more words in
  use is the greater one; with equally many words in use, the words are compared from the
  most significant one down. \<open>a.gt (b)\<close> is \<open>a.cmp (b) === 1\<close> and \<open>a.lt (b)\<close> is
  \<open>a.cmp (b) === -1\<close>.
\<close>

fun cmpFromTop :: "nat list \<Rightarrow> nat list \<Rightarrow> int" where
  "cmpFromTop (a # as) (b # bs) = (if a = b then cmpFromTop as bs else if a < b then - 1 else 1)"
| "cmpFromTop _ _ = 0"

definition ucmp :: "BN \<Rightarrow> BN \<Rightarrow> int" where
  "ucmp this num =
     (if length this > length num then 1
      else if length this < length num then - 1
      else cmpFromTop (rev this) (rev num))"

definition gt :: "BN \<Rightarrow> BN \<Rightarrow> bool" where
  "gt this num = (ucmp this num = 1)"

definition lt :: "BN \<Rightarrow> BN \<Rightarrow> bool" where
  "lt this num = (ucmp this num = - 1)"

unbundle bit_operations_syntax

text \<open>
  \<open>toString (16)\<close>. The loop writes 24 bits of the number for every word in use: with
  \<open>off\<close> bits of the word before still to be written in \<open>carry\<close>,

  \<^item> \<open>word = (((w << off) | carry) & 0xffffff).toString (16)\<close>,
    \<open>carry = (w >>> (24 - off)) & 0xffffff\<close>, \<open>off += 2\<close>;
  \<^item> when \<open>off\<close> has reached 26, \<open>off -= 26\<close> and the same word is visited again (\<open>i--\<close>);
  \<^item> \<open>word\<close> is put in front of the output, padded with zeros to six digits unless it is
    the most significant part (\<open>carry\<close> is 0 and the word is the last one in use).

  After the loop a carry that is not 0 is put in front. The releases of the library differ
  in whether the test of \<open>off\<close> comes before or after the output of \<open>word\<close>, which shows
  only on numbers of thirteen words or more; the test comes first here.
\<close>

function toString16Loop :: "BN \<Rightarrow> nat \<Rightarrow> nat \<Rightarrow> nat \<Rightarrow> string \<Rightarrow> string \<times> nat" where
  "toString16Loop ws i off carry out =
     (if i < length ws
      then (let w = ws ! i;
                word = natToString16 (((w * 2 ^ off) mod 16777216) OR carry);
                carry' = (w div 2 ^ (24 - off)) mod 16777216;
                wraps = (off + 2 \<ge> 26);
                j = (if wraps then i - 1 else i);
                out' = (if carry' \<noteq> 0 \<or> j \<noteq> length ws - 1
                        then replicate (6 - length word) CHR ''0'' @ word @ out
                        else word @ out)
            in if wraps then toString16Loop ws i (off + 2 - 26) carry' out'
               else toString16Loop ws (i + 1) (off + 2) carry' out')
      else (out, carry))"
  by pat_completeness auto

termination
  by (relation "measures [\<lambda>(ws, i, off, carry, out). length ws - i,
                          \<lambda>(ws, i, off, carry, out). off]") auto

declare toString16Loop.simps [simp del]

definition toString16 :: "BN \<Rightarrow> string" where
  "toString16 ws =
     (case toString16Loop ws 0 0 0 [] of
        (out, carry) \<Rightarrow> if carry \<noteq> 0 then natToString16 carry @ out else out)"

section \<open>Data model\<close>

datatype TransactionStatus =
    approved | cancelled | confirmed | failed | rejected | signed
  | cancelSubmitted | accelerateSubmitted | submitted | receiving | unapproved

datatype WalletDevice = MM_MOBILE | MM_EXTENSION | OTHER

datatype Error = Error string | TypeError string

text \<open>
  The fields of \<open>Transaction\<close> carry the prefix \<open>tx_\<close> (\<open>from\<close> and \<open>value\<close>
  are keywords, \<open>chainId\<close> and \<open>amount\<close> are fields of \<open>TransactionMeta\<close> too).
  An optional field is an \<open>option\<close>, \<open>None\<close> being \<open>undefined\<close>.
  \<open>tx_gasLimit\<close> is the property \<open>gasLimit\<close> that \<open>stopTransaction\<close> stores in
  the replacement's transaction object.
\<close>

record Transaction =
  tx_chainId :: "number option"
  tx_data :: "string option"
  tx_from :: string
  tx_gas :: "string option"
  tx_gasLimit :: "string option"
  tx_gasPrice :: "string option"
  tx_nonce :: "string option"
  tx_to :: "string option"
  tx_value :: "string option"
  tx_amount :: "string option"
  tx_payloadId :: "string option"

record TransferInformation =
  symbol :: string
  contractAddress :: string
  decimals :: number

text \<open>
  \<open>TransactionMeta\<close>: the union of the two variants of the source, \<open>error\<close> being
  present in the \<open>failed\<close> variant. \<open>id\<close> is written \<open>id'\<close>.
\<close>

record TransactionMeta =
  isTokenTx :: "bool option"
  transferInformation :: "TransferInformation option"
  id' :: string
  networkID :: "string option"
  chainId :: "string option"
  origin :: "string option"
  rawTransaction :: "string option"
  time :: number
  toSmartContract :: "bool option"
  fromSmartContract :: "bool option"
  transaction :: Transaction
  transactionHash :: "string option"
  blockNumber :: "string option"
  deviceConfirmedOn :: "WalletDevice option"
  confirmations :: "string option"
  amount :: "string option"
  payloadId :: "string option"
  status :: TransactionStatus
  error :: "Error option"

text \<open>\<open>EtherscanTransactionMeta\<close>, its fields prefixed with \<open>es_\<close>.\<close>

record EtherscanTransactionMeta =
  es_blockNumber :: string
  es_timeStamp :: string
  es_hash :: string
  es_nonce :: string
  es_blockHash :: string
  es_transactionIndex :: string
  es_from :: string
  es_to :: string
  es_value :: string
  es_gas :: string
  es_gasPrice :: string
  es_isError :: string
  es_txreceipt_status :: string
  es_input :: string
  es_contractAddress :: string
  es_cumulativeGasUsed :: string
  es_gasUsed :: string
  es_confirmations :: string
  es_tokenDecimal :: string
  es_tokenSymbol :: string

section \<open>Collaborators and controller state\<close>

text \<open>
  Everything the controller reaches outside itself is a field of \<open>Env\<close>: the network
  state, the node queries (\<open>Inl\<close> is a rejected promise), the signing capability, and the
  library functions whose code is not part of the controller (\<open>parseInt\<close>, \<open>Number\<close>,
  number multiplication, \<open>BNToHex (new BN s)\<close> as \<open>decToHex\<close>, the uuid generator as a
  stream of identifiers consumed in call order, the helpers of \<open>util\<close>). The theorems that
  are stated for an environment \<open>env\<close> hold for every choice of these functions.
  \<open>query_getTransactionByHash\<close> answers with the \<open>blockNumber\<close> of the transaction object
  when there is one. \<open>sign\<close> returns the signed transaction, which \<open>serialize\<close> turns into
  the raw hexadecimal string (\<open>bufferToHex (signedTx.serialize ())\<close>).

  The poller sends its \<open>getTransactionByHash\<close> queries together, and the node answers
  them in an order of its own: \<open>arrival\<close> takes the positions of the records that were
  queried, in the order of the Store, and gives the order in which the answers arrive.
\<close>

record Env =
  network :: string
  providerChainId :: "string option"
  providerType :: string
  isCustomNetwork :: bool
  sign :: "(Transaction \<Rightarrow> string \<Rightarrow> Error + string) option"
  prepareUnsignedEthTx :: "Transaction \<Rightarrow> Error + Transaction"
  serialize :: "string \<Rightarrow> Error + string"
  query_gasPrice :: "Error + string"
  query_getBlockByNumber :: "Error + string"
  query_getCode :: "string \<Rightarrow> Error + string"
  query_estimateGas :: "Transaction \<Rightarrow> Error + string"
  query_sendRawTransaction :: "string \<Rightarrow> Error + string"
  query_getTransactionCount :: "string \<Rightarrow> Error + string"
  query_getTransactionByHash :: "string option \<Rightarrow> Error + string option option"
  arrival :: "nat list \<Rightarrow> nat list"
  hexToBN :: "string \<Rightarrow> BN"
  BNToHex :: "BN \<Rightarrow> string"
  normalizeTransaction :: "Transaction \<Rightarrow> Transaction"
  validateTransaction :: "Transaction \<Rightarrow> Error option"
  isSmartContractCode :: "string \<Rightarrow> bool"
  parseInt10 :: "string \<Rightarrow> number"
  parseIntAuto :: "string \<Rightarrow> number"
  toNumber :: "string \<Rightarrow> number"
  times :: "number \<Rightarrow> number \<Rightarrow> number"
  decToHex :: "string \<Rightarrow> string"
  uuid :: "nat \<Rightarrow> string"
  now :: number

text \<open>
  The controller: the published list \<open>state.transactions\<close>, the \<open>disabled\<close> flag of
  \<open>BaseController\<close>, the events emitted on \<open>hub\<close> (oldest first), the mutex, and the
  number of identifiers drawn so far. \<open>notified\<close> records the list handed to the listeners
  by each \<open>notify\<close>, \<open>updates\<close> counts the calls of \<open>update\<close>.
\<close>

record Controller =
  transactions :: "TransactionMeta list"
  disabled :: bool
  notified :: "TransactionMeta list list"
  updates :: nat
  hub :: "(string \<times> TransactionMeta) list"
  mutexLocked :: bool
  uuidCount :: nat

definition notify :: "Controller \<Rightarrow> Controller" where
  "notify c = (if disabled c then c else c\<lparr>notified := notified c @ [transactions c]\<rparr>)"

text \<open>\<open>BaseController.update\<close> with \<open>{ transactions }\<close>: replace the list, then notify.\<close>

definition update :: "TransactionMeta list \<Rightarrow> Controller \<Rightarrow> Controller" where
  "update txs c = notify (c\<lparr>transactions := txs, updates := updates c + 1\<rparr>)"

definition emit :: "string \<Rightarrow> TransactionMeta \<Rightarrow> Controller \<Rightarrow> Controller" where
  "emit name payload c = c\<lparr>hub := hub c @ [(name, payload)]\<rparr>"

section \<open>Normalization of remote history entries\<close>

definition remoteStatus :: "Env \<Rightarrow> EtherscanTransactionMeta \<Rightarrow> string \<Rightarrow> TransactionStatus" where
  "remoteStatus env txMeta address =
     (if number_lt (toNumber env (es_confirmations txMeta)) (Finite 2)
      then (if toLowerCase (es_from txMeta) = toLowerCase address then submitted else receiving)
      else confirmed)"

definition normalizeTx ::
  "Env \<Rightarrow> string \<Rightarrow> EtherscanTransactionMeta \<Rightarrow> string \<Rightarrow> string option \<Rightarrow> string
     \<Rightarrow> TransactionMeta" where
  "normalizeTx env newId txMeta currentNetworkID currentChainId address =
     (let time = times env (parseInt10 env (es_timeStamp txMeta)) (Finite 1000);
          normalizedTransactionBase =
            \<lparr> isTokenTx = None, transferInformation = None, id' = newId,
              networkID = Some currentNetworkID, chainId = currentChainId, origin = None,
              rawTransaction = None, time = time, toSmartContract = None,
              fromSmartContract = None,
              transaction =
                \<lparr> tx_chainId = None, tx_data = Some (es_input txMeta),
                  tx_from = es_from txMeta,
                  tx_gas = Some (decToHex env (es_gas txMeta)), tx_gasLimit = None,
                  tx_gasPrice = Some (decToHex env (es_gasPrice txMeta)),
                  tx_nonce = Some (decToHex env (es_nonce txMeta)),
                  tx_to = Some (es_to txMeta),
                  tx_value = Some (decToHex env (es_value txMeta)),
                  tx_amount = None, tx_payloadId = None \<rparr>,
              transactionHash = Some (es_hash txMeta),
              blockNumber = Some (es_blockNumber txMeta), deviceConfirmedOn = None,
              confirmations = Some (es_confirmations txMeta), amount = None,
              payloadId = None, status = confirmed, error = None \<rparr>
      in if es_isError txMeta = ''0''
         then normalizedTransactionBase\<lparr>status := remoteStatus env txMeta address\<rparr>
         else normalizedTransactionBase
                \<lparr>error := Some (Error ''Transaction failed''), status := failed\<rparr>)"

definition normalizeTokenTx ::
  "Env \<Rightarrow> string \<Rightarrow> EtherscanTransactionMeta \<Rightarrow> string \<Rightarrow> string option \<Rightarrow> string
     \<Rightarrow> TransactionMeta" where
  "normalizeTokenTx env newId txMeta currentNetworkID currentChainId address =
     (let time = times env (parseInt10 env (es_timeStamp txMeta)) (Finite 1000);
          tempStatus = remoteStatus env txMeta address
      in \<lparr> isTokenTx = Some True,
           transferInformation =
             Some \<lparr> symbol = es_tokenSymbol txMeta,
                    contractAddress = es_contractAddress txMeta,
                    decimals = toNumber env (es_tokenDecimal txMeta) \<rparr>,
           id' = newId, networkID = Some currentNetworkID, chainId = currentChainId,
           origin = None, rawTransaction = None, time = time, toSmartContract = None,
           fromSmartContract = None,
           transaction =
             \<lparr> tx_chainId =
                 Some (if number_truthy (toNumber env currentNetworkID)
                       then toNumber env currentNetworkID
                       else (case currentChainId of
                               None \<Rightarrow> NaN | Some c \<Rightarrow> toNumber env c)),
               tx_data = None, tx_from = es_from txMeta, tx_gas = Some (es_gas txMeta),
               tx_gasLimit = None, tx_gasPrice = Some (es_gasPrice txMeta),
               tx_nonce = Some (decToHex env (es_nonce txMeta)),
               tx_to = Some (es_to txMeta), tx_value = Some (es_value txMeta),
               tx_amount = None, tx_payloadId = None \<rparr>,
           transactionHash = Some (es_hash txMeta),
           blockNumber = Some (es_blockNumber txMeta), deviceConfirmedOn = None,
           confirmations = Some (es_confirmations txMeta), amount = None,
           payloadId = None, status = tempStatus, error = None \<rparr>)"

section \<open>Reconciliation with the remote history\<close>

text \<open>
  \<open>duplicatedTxHash remoteTxs\<close> is the filter callback that keeps an entry when it is the
  first of the list with its transaction hash.
\<close>

definition duplicatedTxHash :: "TransactionMeta list \<Rightarrow> TransactionMeta \<Rightarrow> int \<Rightarrow> bool" where
  "duplicatedTxHash remoteTxs item index =
     (findIndex (\<lambda>tx. transactionHash tx = transactionHash item) remoteTxs = index)"

definition filterForLocalTx :: "TransactionMeta list \<Rightarrow> TransactionMeta \<Rightarrow> bool" where
  "filterForLocalTx removeLocalTxs localTx =
     (find (\<lambda>r. transactionHash r = transactionHash localTx) removeLocalTxs = None)"

text \<open>
  The callback that \<open>filterForRemoteTx\<close> hands to \<open>localTxs.find\<close>: does the local entry
  duplicate the remote one?
\<close>

definition alreadyInLocal :: "string \<Rightarrow> TransactionMeta \<Rightarrow> TransactionMeta \<Rightarrow> bool" where
  "alreadyInLocal address remoteTx localTx =
     (if toLowerCase (tx_from (transaction localTx)) = toLowerCase address \<and>
         toLowerCase (tx_from (transaction remoteTx)) = toLowerCase address
      then tx_nonce (transaction localTx) = tx_nonce (transaction remoteTx)
      else transactionHash localTx = transactionHash remoteTx)"

text \<open>
  \<open>filterForRemoteTx\<close> returns the filter's verdict for one remote entry together with the
  array \<open>removeLocalTxs\<close>, which the callback extends by \<open>push\<close>.
\<close>

definition filterForRemoteTx ::
  "TransactionMeta list \<Rightarrow> string \<Rightarrow> TransactionMeta list \<Rightarrow> TransactionMeta
     \<Rightarrow> bool \<times> TransactionMeta list" where
  "filterForRemoteTx localTxs address removeLocalTxs remoteTx =
     (case find (alreadyInLocal address remoteTx) localTxs of
        Some alreadyInLocalTx \<Rightarrow>
          if status alreadyInLocalTx \<noteq> confirmed \<and> status remoteTx = confirmed
          then (True, removeLocalTxs @ [alreadyInLocalTx])
          else (False, removeLocalTxs)
      | None \<Rightarrow> (True, removeLocalTxs))"

text \<open>\<open>remoteTxs.filter (filterForRemoteTx localTxs address removeLocalTxs)\<close>.\<close>

fun filterRemoteTxs ::
  "TransactionMeta list \<Rightarrow> string \<Rightarrow> TransactionMeta list \<Rightarrow> TransactionMeta list
     \<Rightarrow> TransactionMeta list \<times> TransactionMeta list" where
  "filterRemoteTxs localTxs address removeLocalTxs [] = ([], removeLocalTxs)"
| "filterRemoteTxs localTxs address removeLocalTxs (remoteTx # rest) =
     (case filterForRemoteTx localTxs address removeLocalTxs remoteTx of
        (keep, removeLocalTxs') \<Rightarrow>
          (case filterRemoteTxs localTxs address removeLocalTxs' rest of
             (kept, removeLocalTxs'') \<Rightarrow>
               (if keep then remoteTx # kept else kept, removeLocalTxs'')))"

text \<open>
  The merge that \<open>fetchAll\<close> runs once for the ether entries and once for the token entries:
  the remote entries to add, the array of local entries to remove, and the local entries
  that stay.
\<close>

definition remoteTxsForAdd ::
  "TransactionMeta list \<Rightarrow> string \<Rightarrow> TransactionMeta list \<Rightarrow> TransactionMeta list" where
  "remoteTxsForAdd localTxs address remoteTxs = fst (filterRemoteTxs localTxs address [] remoteTxs)"

definition removeLocalTxs ::
  "TransactionMeta list \<Rightarrow> string \<Rightarrow> TransactionMeta list \<Rightarrow> TransactionMeta list" where
  "removeLocalTxs localTxs address remoteTxs = snd (filterRemoteTxs localTxs address [] remoteTxs)"

definition localTxsKept ::
  "TransactionMeta list \<Rightarrow> string \<Rightarrow> TransactionMeta list \<Rightarrow> TransactionMeta list" where
  "localTxsKept localTxs address remoteTxs =
     filter (filterForLocalTx (removeLocalTxs localTxs address remoteTxs)) localTxs"

text \<open>
  \<open>checkSmartContract\<close>; \<open>Inl\<close> when the \<open>getCode\<close> query is rejected.
\<close>

definition checkSmartContract :: "Env \<Rightarrow> TransactionMeta \<Rightarrow> string option \<Rightarrow> Error + bool" where
  "checkSmartContract env tempTx checkAddress =
     (if checkAddress = Some ''0x0000000000000000000000000000000000000000'' then Inr True
      else (case checkAddress of
              Some a \<Rightarrow>
                if a \<noteq> [] \<and>
                   (\<not> truthy (tx_data (transaction tempTx)) \<or>
                    tx_data (transaction tempTx) \<noteq> Some ''0x'')
                then (case query_getCode env a of
                        Inl e \<Rightarrow> Inl e
                      | Inr code \<Rightarrow> Inr (isSmartContractCode env code))
                else Inr False
            | None \<Rightarrow> Inr False))"

text \<open>The second half of the \<open>map\<close> callback of \<open>fetchAll\<close>: the two contract flags.\<close>

definition annotateTx :: "Env \<Rightarrow> TransactionMeta \<Rightarrow> Error + TransactionMeta" where
  "annotateTx env tx =
     (case (if toSmartContract tx = None
            then (case checkSmartContract env tx (tx_to (transaction tx)) of
                    Inl e \<Rightarrow> Inl e
                  | Inr b \<Rightarrow> Inr (tx\<lparr>toSmartContract := Some b\<rparr>))
            else Inr tx) of
        Inl e \<Rightarrow> Inl e
      | Inr tempTx \<Rightarrow>
          if fromSmartContract tempTx = None
          then (case checkSmartContract env tempTx (Some (tx_from (transaction tempTx))) of
                  Inl e \<Rightarrow> Inl e
                | Inr b \<Rightarrow> Inr (tempTx\<lparr>fromSmartContract := Some b\<rparr>))
          else Inr tempTx)"

text \<open>
  \<open>Promise.all\<close> over the annotated entries: the list of results, or the rejection of the
  first entry (in list order) whose query is rejected.
\<close>

fun annotateAll :: "Env \<Rightarrow> TransactionMeta list \<Rightarrow> Error + TransactionMeta list" where
  "annotateAll env [] = Inr []"
| "annotateAll env (tx # txs) =
     (case annotateTx env tx of
        Inl e \<Rightarrow> Inl e
      | Inr tx' \<Rightarrow>
          (case annotateAll env txs of Inl e \<Rightarrow> Inl e | Inr txs' \<Rightarrow> Inr (tx' # txs')))"

text \<open>
  The first half of the \<open>map\<close> callback: the block number of the latest incoming
  transaction seen so far.
\<close>

definition latestIncomingStep :: "Env \<Rightarrow> string \<Rightarrow> string option \<Rightarrow> TransactionMeta \<Rightarrow> string option" where
  "latestIncomingStep env address latestIncomingTxBlockNumber tx =
     (if (chainId tx = providerChainId env \<or>
          (\<not> truthy (chainId tx) \<and> networkID tx = Some (network env))) \<and>
         (case tx_to (transaction tx) of
            None \<Rightarrow> False
          | Some t \<Rightarrow> t \<noteq> [] \<and> toLowerCase t = toLowerCase address)
      then (case blockNumber tx of
              None \<Rightarrow> latestIncomingTxBlockNumber
            | Some b \<Rightarrow>
                if b \<noteq> [] \<and>
                   (case latestIncomingTxBlockNumber of
                      None \<Rightarrow> True
                    | Some l \<Rightarrow> l = [] \<or> number_lt (parseInt10 env l) (parseInt10 env b))
                then Some b else latestIncomingTxBlockNumber)
      else latestIncomingTxBlockNumber)"

text \<open>
  \<open>tempAllTxs.sort ((a, b) => (a.time < b.time ? -1 : 1))\<close>: an insertion sort with this
  comparator. The order the engine gives to entries of equal time is not fixed by the
  language; no theorem below depends on the order.
\<close>

fun insertByTime :: "TransactionMeta \<Rightarrow> TransactionMeta list \<Rightarrow> TransactionMeta list" where
  "insertByTime a [] = [a]"
| "insertByTime a (b # bs) =
     (if number_lt (time a) (time b) then a # b # bs else b # insertByTime a bs)"

definition sortByTime :: "TransactionMeta list \<Rightarrow> TransactionMeta list" where
  "sortByTime txs = foldl (\<lambda>sorted a. insertByTime a sorted) [] txs"

text \<open>\<open>list.map f\<close> where every call of \<open>f\<close> draws one identifier.\<close>

fun mapWithIds :: "(string \<Rightarrow> 'a \<Rightarrow> 'b) \<Rightarrow> (nat \<Rightarrow> string) \<Rightarrow> nat \<Rightarrow> 'a list \<Rightarrow> 'b list" where
  "mapWithIds f ids n [] = []"
| "mapWithIds f ids n (x # xs) = f (ids n) x # mapWithIds f ids (Suc n) xs"

text \<open>The remote lists of \<open>fetchAll\<close> after normalization and removal of repeated hashes.\<close>

definition remoteEtherTxs ::
  "Env \<Rightarrow> Controller \<Rightarrow> string \<Rightarrow> EtherscanTransactionMeta list \<Rightarrow> TransactionMeta list" where
  "remoteEtherTxs env c address result =
     (let normalized =
            mapWithIds (\<lambda>i tx. normalizeTx env i tx (network env) (providerChainId env) address)
              (uuid env) (uuidCount c) result
      in filterIndexed (duplicatedTxHash normalized) normalized)"

definition remoteTokenTxs ::
  "Env \<Rightarrow> Controller \<Rightarrow> string \<Rightarrow> nat \<Rightarrow> EtherscanTransactionMeta list \<Rightarrow> TransactionMeta list" where
  "remoteTokenTxs env c address drawn result =
     (let normalized =
            mapWithIds
              (\<lambda>i tx. normalizeTokenTx env i tx (network env) (providerChainId env) address)
              (uuid env) (uuidCount c + drawn) result
      in filterIndexed (duplicatedTxHash normalized) normalized)"

definition localEtherTxs :: "Controller \<Rightarrow> TransactionMeta list" where
  "localEtherTxs c = filter (\<lambda>localTx. isTokenTx localTx \<noteq> Some True) (transactions c)"

definition localTokenTxs :: "Controller \<Rightarrow> TransactionMeta list" where
  "localTokenTxs c = filter (\<lambda>localTx. isTokenTx localTx = Some True) (transactions c)"

text \<open>\<open>tempAllTxs\<close> as first assigned: the four lists of the merge, concatenated.\<close>

definition tempAllTxs ::
  "Env \<Rightarrow> Controller \<Rightarrow> string
     \<Rightarrow> EtherscanTransactionMeta list \<times> EtherscanTransactionMeta list \<Rightarrow> TransactionMeta list" where
  "tempAllTxs env c address response =
     (let remoteEther = remoteEtherTxs env c address (fst response);
          remoteToken = remoteTokenTxs env c address (length (fst response)) (snd response)
      in localTxsKept (localEtherTxs c) address remoteEther @
         remoteTxsForAdd (localEtherTxs c) address remoteEther @
         localTxsKept (localTokenTxs c) address remoteToken @
         remoteTxsForAdd (localTokenTxs c) address remoteToken)"

text \<open>The condition under which \<open>fetchAll\<close> calls \<open>update\<close>.\<close>

definition fetchAllUpdates ::
  "Env \<Rightarrow> Controller \<Rightarrow> string
     \<Rightarrow> EtherscanTransactionMeta list \<times> EtherscanTransactionMeta list \<Rightarrow> bool" where
  "fetchAllUpdates env c address response =
     (let remoteEther = remoteEtherTxs env c address (fst response);
          remoteToken = remoteTokenTxs env c address (length (fst response)) (snd response)
      in length (transactions c) = 0 \<or>
         length (removeLocalTxs (localEtherTxs c) address remoteEther) > 0 \<or>
         length (removeLocalTxs (localTokenTxs c) address remoteToken) > 0 \<or>
         length (remoteTxsForAdd (localEtherTxs c) address remoteEther) > 0 \<or>
         length (remoteTxsForAdd (localTokenTxs c) address remoteToken) > 0)"

text \<open>
  \<open>fetchAll\<close>. \<open>fetched\<close> is the outcome of \<open>handleTransactionFetch\<close>: the two result lists,
  or its rejection. The result is the returned block number (\<open>None\<close> is \<open>undefined\<close>) or
  the rejection of the returned promise, with the controller afterwards.
\<close>

definition fetchAll ::
  "Env \<Rightarrow> string \<Rightarrow> Error + EtherscanTransactionMeta list \<times> EtherscanTransactionMeta list
     \<Rightarrow> Controller \<Rightarrow> (Error + string option) \<times> Controller" where
  "fetchAll env address fetched c =
     (if network env \<notin> set [''1'', ''3'', ''4'', ''42''] then (Inr None, c)
      else (case fetched of
              Inl e \<Rightarrow> (Inl e, c)
            | Inr response \<Rightarrow>
                (let c1 = c\<lparr>uuidCount :=
                             uuidCount c + length (fst response) + length (snd response)\<rparr>;
                     merged = tempAllTxs env c address response;
                     latestIncomingTxBlockNumber =
                       foldl (latestIncomingStep env address) None merged
                 in (case annotateAll env merged of
                       Inl e \<Rightarrow> (Inl e, c1)
                     | Inr annotated \<Rightarrow>
                         (Inr latestIncomingTxBlockNumber,
                          if fetchAllUpdates env c address response
                          then update (sortByTime annotated) c1 else c1)))))"

section \<open>Gas estimation\<close>

text \<open>
  Modelled from the spec: \<open>fractionBN\<close> of \<open>util\<close>, which \<open>estimateGas\<close> calls and whose
  code is not among the sources. The specification says that the working gas value is 95%
  of the block gas limit, in exact integer arithmetic: the number times the numerator,
  divided by the denominator and rounded down, as a stripped number.
\<close>

definition fractionBN :: "BN \<Rightarrow> nat \<Rightarrow> nat \<Rightarrow> BN" where
  "fractionBN targetBN numerator denominator =
     wordsOf (valueOf targetBN * numerator div denominator)"

text \<open>The node queries that \<open>estimateGas\<close> issues, in the order it issues them.\<close>

datatype Query =
    GasPriceQuery | GetBlockByNumberQuery | GetCodeQuery string | EstimateGasQuery Transaction

text \<open>
  \<open>estimatedTransaction\<close> as it is sent to the node with the \<open>estimateGas\<close> query: the copy
  of the draft with its data prefixed, its value defaulted and the working gas value.
\<close>

definition estimatedTransaction :: "Env \<Rightarrow> Transaction \<Rightarrow> string \<Rightarrow> Transaction" where
  "estimatedTransaction env draft gasLimit =
     draft
       \<lparr> tx_data :=
           (case tx_data draft of
              None \<Rightarrow> None
            | Some d \<Rightarrow> if d = [] then Some d else Some (addHexPrefix d)),
         tx_value := (case tx_value draft of None \<Rightarrow> Some ''0x0'' | Some v \<Rightarrow> Some v),
         tx_gas := Some (BNToHex env (fractionBN (hexToBN env gasLimit) 19 20)) \<rparr>"

text \<open>
  The last part of \<open>estimateGas\<close>, from the test of step 2 on: \<open>gasLimit\<close> is the gas limit
  of the latest block, \<open>code\<close> the code at the destination (\<open>None\<close> when there is no
  destination), \<open>queries\<close> the queries issued so far.
\<close>

definition estimateGasFromCode ::
  "Env \<Rightarrow> Transaction \<Rightarrow> string \<Rightarrow> string \<Rightarrow> string option \<Rightarrow> Query list
     \<Rightarrow> (Error + string \<times> string) \<times> Query list" where
  "estimateGasFromCode env draft gasPrice gasLimit code queries =
     (if \<not> isCustomNetwork env \<and>
         (\<not> truthy (tx_to draft) \<or>
          (truthy (tx_to draft) \<and> \<not> truthy (tx_data draft) \<and>
           (\<not> truthy code \<or> code = Some ''0x'')))
      then (Inr (''0x5208'', gasPrice), queries)
      else
        (let gasLimitBN = hexToBN env gasLimit;
             estimatedTransaction = estimatedTransaction env draft gasLimit
         in (case query_estimateGas env estimatedTransaction of
               Inl e \<Rightarrow> (Inl e, queries @ [EstimateGasQuery estimatedTransaction])
             | Inr gasHex \<Rightarrow>
                 (let gasBN = hexToBN env gasHex;
                      maxGasBN = muln gasLimitBN NINE_TENTHS;
                      paddedGasBN = muln gasBN THREE_HALVES
                  in (Inr (if gt gasBN maxGasBN \<or> isCustomNetwork env
                           then addHexPrefix gasHex
                           else if lt paddedGasBN maxGasBN
                           then addHexPrefix (BNToHex env paddedGasBN)
                           else addHexPrefix (BNToHex env maxGasBN),
                           gasPrice),
                      queries @ [EstimateGasQuery estimatedTransaction])))))"

text \<open>
  \<open>estimateGas\<close>: the pair \<open>(gas, gasPrice)\<close> or the rejection of the promise, with the
  queries issued.
\<close>

definition estimateGas :: "Env \<Rightarrow> Transaction \<Rightarrow> (Error + string \<times> string) \<times> Query list" where
  "estimateGas env draft =
     (case (case tx_gasPrice draft of
              None \<Rightarrow> (query_gasPrice env, [GasPriceQuery])
            | Some providedGasPrice \<Rightarrow> (Inr providedGasPrice, [])) of
        (Inl e, queries) \<Rightarrow> (Inl e, queries)
      | (Inr gasPrice, queries) \<Rightarrow>
          (case tx_gas draft of
             Some gas \<Rightarrow> (Inr (gas, gasPrice), queries)
           | None \<Rightarrow>
               (case query_getBlockByNumber env of
                  Inl e \<Rightarrow> (Inl e, queries @ [GetBlockByNumberQuery])
                | Inr gasLimit \<Rightarrow>
                    (case tx_to draft of
                       None \<Rightarrow>
                         estimateGasFromCode env draft gasPrice gasLimit None
                           (queries @ [GetBlockByNumberQuery])
                     | Some to \<Rightarrow>
                         if to = []
                         then estimateGasFromCode env draft gasPrice gasLimit None
                                (queries @ [GetBlockByNumberQuery])
                         else (case query_getCode env to of
                                 Inl e \<Rightarrow>
                                   (Inl e, queries @ [GetBlockByNumberQuery, GetCodeQuery to])
                               | Inr code \<Rightarrow>
                                   estimateGasFromCode env draft gasPrice gasLimit
                                     (Some code)
                                     (queries @ [GetBlockByNumberQuery, GetCodeQuery to]))))))"

section \<open>Operations on the Store\<close>

text \<open>
  An operation runs from the state it finds to the state it leaves; the points at which an
  asynchronous operation waits for a promise are not points of the model. An operation
  returns \<open>Some e\<close> when it throws (or its promise is rejected with) \<open>e\<close>.

  \<open>updateTransaction\<close> assigns the normalized transaction to its argument before it
  validates, so the argument as it leaves the call is part of the result.
\<close>

definition updateTransaction ::
  "Env \<Rightarrow> TransactionMeta \<Rightarrow> Controller \<Rightarrow> Error option \<times> TransactionMeta \<times> Controller" where
  "updateTransaction env transactionMeta c =
     (let meta = transactionMeta
                   \<lparr>transaction := normalizeTransaction env (transaction transactionMeta)\<rparr>
      in (case validateTransaction env (transaction meta) of
            Some e \<Rightarrow> (Some e, meta, c)
          | None \<Rightarrow>
              (let index = findIndex (\<lambda>t. id' meta = id' t) (transactions c);
                   tempTxs = (if index < 0 then transactions c
                              else (transactions c)[nat index := meta])
               in (None, meta, update tempTxs c))))"

definition failTransaction ::
  "Env \<Rightarrow> TransactionMeta \<Rightarrow> Error \<Rightarrow> Controller \<Rightarrow> Error option \<times> Controller" where
  "failTransaction env transactionMeta err c =
     (case updateTransaction env (transactionMeta\<lparr>error := Some err, status := failed\<rparr>) c of
        (Some e, newTransactionMeta, c') \<Rightarrow> (Some e, c')
      | (None, newTransactionMeta, c') \<Rightarrow>
          (None, emit (id' transactionMeta @ '':finished'') newTransactionMeta c'))"

definition releaseLock :: "Controller \<Rightarrow> Controller" where
  "releaseLock c = c\<lparr>mutexLocked := False\<rparr>"

text \<open>
  The \<open>try\<close> block of \<open>approveTransaction\<close> after the two tests of its beginning: the error
  thrown, if any, with \<open>tempTxMeta\<close> and the controller as they are at that point.
\<close>

definition approveSteps ::
  "Env \<Rightarrow> (Transaction \<Rightarrow> string \<Rightarrow> Error + string) \<Rightarrow> string \<Rightarrow> TransactionMeta \<Rightarrow> Controller
     \<Rightarrow> Error option \<times> TransactionMeta \<times> Controller" where
  "approveSteps env signFn currentChainId tempTxMeta c =
     (let from = tx_from (transaction tempTxMeta);
          nonce = tx_nonce (transaction tempTxMeta);
          chainId = parseIntAuto env currentChainId
      in (case (case nonce of
                  None \<Rightarrow> query_getTransactionCount env from
                | Some n \<Rightarrow> if n = [] then query_getTransactionCount env from else Inr n) of
            Inl e \<Rightarrow> (Some e, tempTxMeta, c)
          | Inr txNonce \<Rightarrow>
              (let approvedMeta =
                     tempTxMeta
                       \<lparr> status := approved,
                         transaction :=
                           (transaction tempTxMeta)
                             \<lparr>tx_nonce := Some txNonce, tx_chainId := Some chainId\<rparr> \<rparr>;
                   txParams =
                     (transaction approvedMeta)
                       \<lparr>tx_gasLimit := tx_gas (transaction approvedMeta)\<rparr>
               in (case prepareUnsignedEthTx env txParams of
                     Inl e \<Rightarrow> (Some e, approvedMeta, c)
                   | Inr unsignedEthTx \<Rightarrow>
                       (case signFn unsignedEthTx from of
                          Inl e \<Rightarrow> (Some e, approvedMeta, c)
                        | Inr signedTx \<Rightarrow>
                            (case updateTransaction env (approvedMeta\<lparr>status := signed\<rparr>) c of
                               (Some e, signedMeta, c1) \<Rightarrow> (Some e, signedMeta, c1)
                             | (None, signedMeta, c1) \<Rightarrow>
                                 (case serialize env signedTx of
                                    Inl e \<Rightarrow> (Some e, signedMeta, c1)
                                  | Inr rawTx \<Rightarrow>
                                      (case updateTransaction env
                                              (signedMeta\<lparr>rawTransaction := Some rawTx\<rparr>) c1 of
                                         (Some e, rawMeta, c2) \<Rightarrow> (Some e, rawMeta, c2)
                                       | (None, rawMeta, c2) \<Rightarrow>
                                           (case query_sendRawTransaction env rawTx of
                                              Inl e \<Rightarrow> (Some e, rawMeta, c2)
                                            | Inr txHash \<Rightarrow>
                                                (case updateTransaction env
                                                        (rawMeta
                                                           \<lparr>transactionHash := Some txHash,
                                                             status := submitted\<rparr>) c2 of
                                                   (Some e, sentMeta, c3) \<Rightarrow>
                                                     (Some e, sentMeta, c3)
                                                 | (None, sentMeta, c3) \<Rightarrow>
                                                     (None, sentMeta,
                                                      emit (id' sentMeta @ '':finished'')
                                                        sentMeta c3)))))))))))"

text \<open>
  The whole \<open>try\<close> block: without a signing capability, or without a chain id, the lock is
  released and the record fails.
\<close>

definition approveTry ::
  "Env \<Rightarrow> TransactionMeta \<Rightarrow> Controller \<Rightarrow> Error option \<times> TransactionMeta \<times> Controller" where
  "approveTry env tempTxMeta c =
     (case sign env of
        None \<Rightarrow>
          (case failTransaction env tempTxMeta (Error ''No sign method defined.'')
                  (releaseLock c) of
             (thrown, c') \<Rightarrow> (thrown, tempTxMeta, c'))
      | Some signFn \<Rightarrow>
          (case providerChainId env of
             None \<Rightarrow>
               (case failTransaction env tempTxMeta (Error ''No chainId defined.'')
                       (releaseLock c) of
                  (thrown, c') \<Rightarrow> (thrown, tempTxMeta, c'))
           | Some currentChainId \<Rightarrow>
               if currentChainId = []
               then (case failTransaction env tempTxMeta (Error ''No chainId defined.'')
                             (releaseLock c) of
                       (thrown, c') \<Rightarrow> (thrown, tempTxMeta, c'))
               else approveSteps env signFn currentChainId tempTxMeta c))"

text \<open>
  \<open>approveTransaction\<close>. The call acquires the mutex first; when the mutex is held it
  waits. Reading \<open>transactionMeta.transaction\<close> of an identifier that is not in the Store
  throws a \<open>TypeError\<close> before the \<open>try\<close> statement is entered. The \<open>catch\<close> clause fails
  the record, the \<open>finally\<close> clause releases the lock.
\<close>

datatype Completion = Finished | Threw Error | WaitsForMutex

definition approveTransaction :: "Env \<Rightarrow> string \<Rightarrow> Controller \<Rightarrow> Completion \<times> Controller" where
  "approveTransaction env transactionID c =
     (if mutexLocked c then (WaitsForMutex, c)
      else
        (let locked = c\<lparr>mutexLocked := True\<rparr>;
             index = findIndex (\<lambda>t. transactionID = id' t) (transactions c)
         in if index < 0
            then (Threw (TypeError ''Cannot read properties of undefined''), locked)
            else
              (case approveTry env (transactions c ! nat index) locked of
                 (None, tempTxMeta, c1) \<Rightarrow> (Finished, releaseLock c1)
               | (Some e, tempTxMeta, c1) \<Rightarrow>
                   (case failTransaction env tempTxMeta e c1 of
                      (None, c2) \<Rightarrow> (Finished, releaseLock c2)
                    | (Some e', c2) \<Rightarrow> (Threw e', releaseLock c2)))))"

definition cancelTransaction :: "string \<Rightarrow> Controller \<Rightarrow> Controller" where
  "cancelTransaction transactionID c =
     (case find (\<lambda>t. id' t = transactionID) (transactions c) of
        None \<Rightarrow> c
      | Some transactionMeta \<Rightarrow>
          update (filter (\<lambda>t. id' t \<noteq> transactionID) (transactions c))
            (emit (id' transactionMeta @ '':finished'')
               (transactionMeta\<lparr>status := rejected\<rparr>) c))"

text \<open>
  What \<open>stopTransaction\<close> and \<open>speedUpTransaction\<close> do with \<open>txParams\<close>: prepare the
  unsigned transaction, sign it, serialize it and broadcast it. The result is the
  transaction hash, or what one of the four steps throws.
\<close>

definition signAndSend ::
  "Env \<Rightarrow> (Transaction \<Rightarrow> string \<Rightarrow> Error + string) \<Rightarrow> Transaction \<Rightarrow> string
     \<Rightarrow> Error + string" where
  "signAndSend env signFn txParams sender =
     (case prepareUnsignedEthTx env txParams of
        Inl e \<Rightarrow> Inl e
      | Inr unsignedEthTx \<Rightarrow>
          (case signFn unsignedEthTx sender of
             Inl e \<Rightarrow> Inl e
           | Inr signedTx \<Rightarrow>
               (case serialize env signedTx of
                  Inl e \<Rightarrow> Inl e
                | Inr rawTx \<Rightarrow> query_sendRawTransaction env rawTx)))"

text \<open>
  The end of both operations: in the copy of the list, the record found by
  \<open>findIndex\<close> is spliced out and the new record is pushed; the copy is published and the
  event is emitted.
\<close>

definition replaceTransaction ::
  "string \<Rightarrow> TransactionMeta \<Rightarrow> string \<Rightarrow> Controller \<Rightarrow> Controller" where
  "replaceTransaction transactionID newTransactionMeta event c =
     (let tempTxs = transactions c;
          found = findIndex (\<lambda>t. id' t = transactionID) tempTxs
      in emit event newTransactionMeta
           (update (splice1 found tempTxs @ [newTransactionMeta]) c))"

definition stopTxParams :: "TransactionMeta \<Rightarrow> Transaction" where
  "stopTxParams transactionMeta =
     \<lparr> tx_chainId = None, tx_data = None,
       tx_from = tx_from (transaction transactionMeta), tx_gas = None,
       tx_gasLimit = tx_gas (transaction transactionMeta),
       tx_gasPrice =
         Some (bumpedGasPrice CANCEL_RATE (tx_gasPrice (transaction transactionMeta))),
       tx_nonce = tx_nonce (transaction transactionMeta),
       tx_to = Some (tx_from (transaction transactionMeta)),
       tx_value = Some ''0x0'', tx_amount = None, tx_payloadId = None \<rparr>"

definition stopTransaction :: "Env \<Rightarrow> string \<Rightarrow> Controller \<Rightarrow> Error option \<times> Controller" where
  "stopTransaction env transactionID c =
     (case find (\<lambda>t. id' t = transactionID) (transactions c) of
        None \<Rightarrow> (None, c)
      | Some transactionMeta \<Rightarrow>
          (case sign env of
             None \<Rightarrow> (Some (Error ''No sign method defined.''), c)
           | Some signFn \<Rightarrow>
               (case signAndSend env signFn (stopTxParams transactionMeta)
                       (tx_from (transaction transactionMeta)) of
                  Inl e \<Rightarrow> (Some e, c)
                | Inr txHash \<Rightarrow>
                    (None,
                     replaceTransaction transactionID
                       (transactionMeta
                          \<lparr> id' := uuid env (uuidCount c), time := now env,
                            transaction := stopTxParams transactionMeta,
                            transactionHash := Some txHash, amount := None,
                            isTokenTx := None, transferInformation := None,
                            status := cancelSubmitted \<rparr>)
                       (id' transactionMeta @ '':finished'')
                       (c\<lparr>uuidCount := Suc (uuidCount c)\<rparr>)))))"

definition speedUpTxParams :: "TransactionMeta \<Rightarrow> Transaction" where
  "speedUpTxParams transactionMeta =
     (transaction transactionMeta)
       \<lparr> tx_gasLimit := tx_gas (transaction transactionMeta),
         tx_gasPrice :=
           Some (bumpedGasPrice SPEED_UP_RATE (tx_gasPrice (transaction transactionMeta))) \<rparr>"

definition speedUpTransaction :: "Env \<Rightarrow> string \<Rightarrow> Controller \<Rightarrow> Error option \<times> Controller" where
  "speedUpTransaction env transactionID c =
     (case find (\<lambda>t. id' t = transactionID) (transactions c) of
        None \<Rightarrow> (None, c)
      | Some transactionMeta \<Rightarrow>
          (case sign env of
             None \<Rightarrow> (Some (Error ''No sign method defined.''), c)
           | Some signFn \<Rightarrow>
               (case signAndSend env signFn (speedUpTxParams transactionMeta)
                       (tx_from (transaction transactionMeta)) of
                  Inl e \<Rightarrow> (Some e, c)
                | Inr txHash \<Rightarrow>
                    (None,
                     replaceTransaction transactionID
                       (transactionMeta
                          \<lparr> id' := uuid env (uuidCount c), time := now env,
                            transaction :=
                              (transaction transactionMeta)
                                \<lparr>tx_gasPrice :=
                                   Some (bumpedGasPrice SPEED_UP_RATE
                                           (tx_gasPrice (transaction transactionMeta)))\<rparr>,
                            transactionHash := Some txHash,
                            status := accelerateSubmitted \<rparr>)
                       (id' transactionMeta @ '':speedup'')
                       (c\<lparr>uuidCount := Suc (uuidCount c)\<rparr>)))))"

section \<open>The poller tick on record objects\<close>

text \<open>
  Whether an operation changes a record in place is a question about objects, not about
  values. Here the records are objects of a heap, addressed by their index in \<open>objects\<close>;
  \<open>stateTransactions\<close> is the published array \<open>state.transactions\<close>, a list of references;
  a listener is handed the published array, and the payload of an event is a reference.
\<close>

record ObjectStore =
  objects :: "TransactionMeta list"
  stateTransactions :: "nat list"
  os_disabled :: bool
  os_notified :: "nat list list"
  os_updates :: nat
  os_hub :: "(string \<times> nat) list"

text \<open>\<open>update ({ transactions: [...transactions] })\<close>: a new array of the same references.\<close>

definition os_update :: "nat list \<Rightarrow> ObjectStore \<Rightarrow> ObjectStore" where
  "os_update refs s =
     (let s' = s\<lparr>stateTransactions := refs, os_updates := os_updates s + 1\<rparr>
      in if os_disabled s' then s' else s'\<lparr>os_notified := os_notified s' @ [refs]\<rparr>)"

text \<open>
  The end of \<open>queryTransactionStatuses\<close>: \<open>if (gotUpdates) update (...)\<close>.
\<close>

definition publishUpdates :: "bool \<Rightarrow> ObjectStore \<Rightarrow> ObjectStore" where
  "publishUpdates gotUpdates s =
     (if gotUpdates then os_update (stateTransactions s) s else s)"

text \<open>
  \<open>transactions.map\<close> runs the callback for every record of the array at once, each up
  to its \<open>await\<close>: the query of a record that is \<open>submitted\<close> on the current chain is sent,
  the callback of any other record is finished. \<open>queried\<close> is this test, and
  \<open>pendingQueries\<close> the positions in the array whose query is sent.
\<close>

definition queried :: "Env \<Rightarrow> TransactionMeta \<Rightarrow> bool" where
  "queried env meta =
     (status meta = submitted \<and>
      (chainId meta = providerChainId env \<or>
       (\<not> truthy (chainId meta) \<and> networkID meta = Some (network env))))"

definition pendingQueries :: "Env \<Rightarrow> ObjectStore \<Rightarrow> nat list" where
  "pendingQueries env s =
     filter (\<lambda>index. queried env (objects s ! (stateTransactions s ! index)))
       [0..<length (stateTransactions s)]"

text \<open>
  The order in which the answers arrive: the order that \<open>arrival\<close> gives, restricted to
  the positions that were queried and with every position once, followed by the queried
  positions it leaves out, so that every query is answered.
\<close>

definition arrivalOrder :: "Env \<Rightarrow> nat list \<Rightarrow> nat list" where
  "arrivalOrder env pending =
     (let order = filter (\<lambda>index. index \<in> set pending) (remdups (arrival env pending))
      in order @ filter (\<lambda>index. index \<notin> set order) pending)"

text \<open>
  The rest of the callback, run when the answer for the record at position \<open>index\<close> of the
  array \<open>refs\<close> arrives. The state of the loop is the store, the flag \<open>gotUpdates\<close> and
  whether \<open>Promise.all\<close> is settled already. The first rejected query rejects
  \<open>Promise.all\<close>: \<open>safelyExecute\<close> swallows the rejection and the function goes on to its
  end with the flag as it is then; the callbacks of the other records still run when their
  answers arrive.
\<close>

definition pollRecord ::
  "Env \<Rightarrow> nat list \<Rightarrow> ObjectStore \<times> bool \<times> bool \<Rightarrow> nat \<Rightarrow> ObjectStore \<times> bool \<times> bool" where
  "pollRecord env refs loop index =
     (case loop of
        (s, gotUpdates, settled) \<Rightarrow>
          (let ref = refs ! index;
               meta = objects s ! ref
           in (case query_getTransactionByHash env (transactionHash meta) of
                 Inl e \<Rightarrow>
                   if settled then (s, gotUpdates, True)
                   else (publishUpdates gotUpdates s, gotUpdates, True)
               | Inr txObj \<Rightarrow>
                   if (case txObj of
                         None \<Rightarrow> False
                       | Some includedIn \<Rightarrow> truthy includedIn)
                   then (s\<lparr> objects := (objects s)[ref := meta\<lparr>status := confirmed\<rparr>],
                            os_hub := os_hub s @ [(id' meta @ '':confirmed'', ref)] \<rparr>,
                         True, settled)
                   else (s, gotUpdates, settled))))"

text \<open>
  \<open>queryTransactionStatuses\<close>: the queries are sent, the answers are handled in the order
  of their arrival, and when all have arrived without a rejection the function goes on to
  its end.
\<close>

definition queryTransactionStatuses :: "Env \<Rightarrow> ObjectStore \<Rightarrow> ObjectStore" where
  "queryTransactionStatuses env s =
     (case foldl (pollRecord env (stateTransactions s)) (s, False, False)
             (arrivalOrder env (pendingQueries env s)) of
        (s', gotUpdates, settled) \<Rightarrow>
          if settled then s' else publishUpdates gotUpdates s')"

section \<open>The matching relation as the specification words it\<close>

text \<open>
  The sentence of the specification, word for word: the entries share the sender address
  and the nonce, or otherwise their hashes are equal.
\<close>

definition matchesBySenderNonceOrHash :: "TransactionMeta \<Rightarrow> TransactionMeta \<Rightarrow> bool" where
  "matchesBySenderNonceOrHash remoteTx localTx =
     ((toLowerCase (tx_from (transaction localTx)) = toLowerCase (tx_from (transaction remoteTx)) \<and>
       tx_nonce (transaction localTx) = tx_nonce (transaction remoteTx)) \<or>
      transactionHash localTx = transactionHash remoteTx)"

section \<open>Example values\<close>

text \<open>
  A concrete environment and concrete records, on which the theorems are instantiated. The
  library functions of the environment are the JavaScript functions on the strings that
  occur below, which are integer numerals:

  \<^item> \<open>exampleParseInt True\<close> is \<open>parseInt (s, 10)\<close> and \<open>exampleParseInt False\<close> is
    \<open>parseInt (s)\<close> (white space and a sign are skipped, the longest run of digits is
    read, without a digit the result is not a number);
  \<^item> \<open>exampleNumber\<close> is \<open>Number (s)\<close> for the empty string, which is 0, and for integer
    numerals, decimal or with the prefix \<open>0x\<close>;
  \<^item> \<open>finiteTimes\<close> multiplies finite numbers;
  \<^item> the helpers of \<open>util\<close>: \<open>hexToBN\<close> is \<open>new BN (stripHexPrefix (s), 16)\<close>, \<open>BNToHex\<close> is
    \<open>addHexPrefix (bn.toString (16))\<close>, and \<open>BNToHex (new BN (s))\<close> is the hexadecimal
    numeral of the decimal numeral \<open>s\<close>;
  \<^item> \<open>normalizeTransaction\<close> and \<open>validateTransaction\<close> of \<open>util\<close> stand for a
    transaction that is normalized already and valid: none of the examples below reaches
    them.
\<close>

definition digitOf :: "char \<Rightarrow> nat option" where
  "digitOf c =
     (let n = (of_char c :: nat) in if 48 \<le> n \<and> n \<le> 57 then Some (n - 48) else None)"

fun takeDecimalDigits :: "string \<Rightarrow> nat list" where
  "takeDecimalDigits [] = []"
| "takeDecimalDigits (c # cs) =
     (case digitOf c of None \<Rightarrow> [] | Some d \<Rightarrow> d # takeDecimalDigits cs)"

definition signed :: "bool \<Rightarrow> nat \<Rightarrow> number" where
  "signed negative n = Finite (if negative then - of_nat n else of_nat n)"

definition exampleParseInt :: "bool \<Rightarrow> string \<Rightarrow> number" where
  "exampleParseInt decimal s =
     (let s1 = dropWhile isWhiteSpace s;
          negative = (take 1 s1 = ''-'');
          s2 = (if take 1 s1 = ''-'' \<or> take 1 s1 = ''+'' then drop 1 s1 else s1);
          hex = (\<not> decimal \<and> (take 2 s2 = ''0x'' \<or> take 2 s2 = ''0X''));
          digits = (if hex then takeHexDigits (drop 2 s2) else takeDecimalDigits s2)
      in if digits = [] then NaN
         else signed negative (digitsValue (if hex then 16 else 10) digits))"

definition exampleNumber :: "string \<Rightarrow> number" where
  "exampleNumber s =
     (let t = rev (dropWhile isWhiteSpace (rev (dropWhile isWhiteSpace s)));
          negative = (take 1 t = ''-'');
          u = (if take 1 t = ''-'' \<or> take 1 t = ''+'' then drop 1 t else t)
      in if t = [] then Finite 0
         else if take 2 t = ''0x'' \<or> take 2 t = ''0X''
         then (if drop 2 t \<noteq> [] \<and> length (takeHexDigits (drop 2 t)) = length (drop 2 t)
               then signed False (digitsValue 16 (takeHexDigits (drop 2 t))) else NaN)
         else if u \<noteq> [] \<and> length (takeDecimalDigits u) = length u
         then signed negative (digitsValue 10 (takeDecimalDigits u))
         else NaN)"

definition finiteTimes :: "number \<Rightarrow> number \<Rightarrow> number" where
  "finiteTimes a b = (case (a, b) of (Finite x, Finite y) \<Rightarrow> Finite (x * y) | _ \<Rightarrow> NaN)"

definition stripHexPrefix :: "string \<Rightarrow> string" where
  "stripHexPrefix str = (if take 2 str = ''0x'' then drop 2 str else str)"

definition exampleHexToBN :: "string \<Rightarrow> BN" where
  "exampleHexToBN s = wordsOf (digitsValue 16 (takeHexDigits (stripHexPrefix s)))"

definition exampleBNToHex :: "BN \<Rightarrow> string" where
  "exampleBNToHex bn = addHexPrefix (toString16 bn)"

definition exampleDecToHex :: "string \<Rightarrow> string" where
  "exampleDecToHex s = addHexPrefix (natToString16 (digitsValue 10 (takeDecimalDigits s)))"

definition exampleEnv :: Env where
  "exampleEnv =
     \<lparr> network = ''1'', providerChainId = Some ''1'', providerType = ''mainnet'',
       isCustomNetwork = False, sign = None, prepareUnsignedEthTx = Inr, serialize = Inr,
       query_gasPrice = Inr ''0x3b9aca00'', query_getBlockByNumber = Inr ''0x1c9c380'',
       query_getCode = (\<lambda>a. Inr ''0x''), query_estimateGas = (\<lambda>t. Inr ''0x5208''),
       query_sendRawTransaction = (\<lambda>r. Inr ''0xabc''),
       query_getTransactionCount = (\<lambda>a. Inr ''0x5''),
       query_getTransactionByHash = (\<lambda>h. Inr (Some (Some ''0x10''))),
       arrival = (\<lambda>pending. pending),
       hexToBN = exampleHexToBN, BNToHex = exampleBNToHex,
       normalizeTransaction = (\<lambda>t. t), validateTransaction = (\<lambda>t. None),
       isSmartContractCode = (\<lambda>code. code \<noteq> [] \<and> code \<noteq> ''0x'' \<and> code \<noteq> ''0x0''),
       parseInt10 = exampleParseInt True, parseIntAuto = exampleParseInt False,
       toNumber = exampleNumber,
       times = finiteTimes, decToHex = exampleDecToHex,
       uuid = (\<lambda>n. replicate (Suc n) CHR ''u''), now = Finite 5000 \<rparr>"

definition wallet :: string where
  "wallet = ''0x1A2b''"

definition exampleTransaction :: Transaction where
  "exampleTransaction =
     \<lparr> tx_chainId = None, tx_data = None, tx_from = ''0x1a2b'', tx_gas = Some ''0x5208'',
       tx_gasLimit = None, tx_gasPrice = Some ''0x14'', tx_nonce = Some ''0x5'',
       tx_to = Some ''0x3c4d'', tx_value = Some ''0x1'', tx_amount = None,
       tx_payloadId = None \<rparr>"

definition exampleMeta :: TransactionMeta where
  "exampleMeta =
     \<lparr> isTokenTx = None, transferInformation = None, id' = ''local-5'',
       networkID = Some ''1'', chainId = Some ''1'', origin = None, rawTransaction = None,
       time = Finite 1000, toSmartContract = None, fromSmartContract = None,
       transaction = exampleTransaction, transactionHash = Some ''0xf5'', blockNumber = None,
       deviceConfirmedOn = None, confirmations = None, amount = None, payloadId = None,
       status = submitted, error = None \<rparr>"

definition failedLocal5 :: TransactionMeta where
  "failedLocal5 =
     exampleMeta\<lparr>id' := ''local-5-failed'', transactionHash := None, status := failed,
       error := Some (Error ''send failed'')\<rparr>"

definition failedLocal6 :: TransactionMeta where
  "failedLocal6 =
     exampleMeta\<lparr>id' := ''local-6-failed'', transactionHash := None, status := failed,
       error := Some (Error ''send failed''),
       transaction := exampleTransaction\<lparr>tx_nonce := Some ''0x6''\<rparr>\<rparr>"

definition submittedLocal6 :: TransactionMeta where
  "submittedLocal6 =
     exampleMeta\<lparr>id' := ''local-6'', transactionHash := Some ''0xf6'',
       transaction := exampleTransaction\<lparr>tx_nonce := Some ''0x6''\<rparr>\<rparr>"

definition confirmedRemote5 :: TransactionMeta where
  "confirmedRemote5 =
     exampleMeta\<lparr>id' := ''remote-5'', status := confirmed, blockNumber := Some ''16'',
       confirmations := Some ''12''\<rparr>"

definition foreignLocal5 :: TransactionMeta where
  "foreignLocal5 =
     exampleMeta\<lparr>id' := ''local-foreign-5'',
       transaction := exampleTransaction\<lparr>tx_from := ''0x9f9f''\<rparr>\<rparr>"

definition foreignRemote5 :: TransactionMeta where
  "foreignRemote5 =
     exampleMeta\<lparr>id' := ''remote-foreign-5'', status := confirmed,
       transactionHash := Some ''0xf7'',
       transaction := exampleTransaction\<lparr>tx_from := ''0x9f9f''\<rparr>\<rparr>"

definition emptyController :: Controller where
  "emptyController =
     \<lparr> transactions = [], disabled = False, notified = [], updates = 0, hub = [],
       mutexLocked = False, uuidCount = 0 \<rparr>"

definition storeWith5and6 :: Controller where
  "storeWith5and6 = emptyController\<lparr>transactions := [exampleMeta, submittedLocal6]\<rparr>"

definition exampleDraft :: Transaction where
  "exampleDraft = exampleTransaction\<lparr>tx_gasPrice := None, tx_nonce := None\<rparr>"

definition contractDraft :: Transaction where
  "contractDraft =
     exampleTransaction\<lparr>tx_gas := None, tx_data := Some ''0xa9059cbb'', tx_nonce := None\<rparr>"

definition remoteEntry :: EtherscanTransactionMeta where
  "remoteEntry =
     \<lparr> es_blockNumber = ''16'', es_timeStamp = ''16'', es_hash = ''0xf5'',
       es_nonce = ''5'', es_blockHash = ''0xb1'', es_transactionIndex = ''0'',
       es_from = ''0x1a2b'', es_to = ''0x3c4d'', es_value = ''1'', es_gas = ''21000'',
       es_gasPrice = ''20'', es_isError = ''0'', es_txreceipt_status = ''1'',
       es_input = ''0x'', es_contractAddress = ''0x7e57'', es_cumulativeGasUsed = ''21000'',
       es_gasUsed = ''21000'', es_confirmations = ''12'', es_tokenDecimal = ''18'',
       es_tokenSymbol = ''TKN'' \<rparr>"

definition remoteEntry6 :: EtherscanTransactionMeta where
  "remoteEntry6 =
     remoteEntry\<lparr>es_blockNumber := ''27'', es_timeStamp := ''27'', es_hash := ''0xf6'',
       es_nonce := ''6'', es_confirmations := ''1''\<rparr>"

definition normalizedRemote5 :: TransactionMeta where
  "normalizedRemote5 = normalizeTx exampleEnv ''u'' remoteEntry ''1'' (Some ''1'') wallet"

definition normalizedRemote6 :: TransactionMeta where
  "normalizedRemote6 = normalizeTx exampleEnv ''uu'' remoteEntry6 ''1'' (Some ''1'') wallet"

definition storeWithFailed :: Controller where
  "storeWithFailed =
     emptyController\<lparr>transactions := [failedLocal5, exampleMeta, failedLocal6]\<rparr>"

definition largeBlockEnv :: Env where
  "largeBlockEnv =
     exampleEnv\<lparr>query_getBlockByNumber := Inr ''0x5f5e100'',
       query_estimateGas := (\<lambda>t. Inr ''0x3938700'')\<rparr>"

definition publishedSubmitted :: ObjectStore where
  "publishedSubmitted =
     \<lparr> objects = [exampleMeta], stateTransactions = [0], os_disabled = False,
       os_notified = [], os_updates = 0, os_hub = [] \<rparr>"

definition signingEnv :: Env where
  "signingEnv = exampleEnv\<lparr>sign := Some (\<lambda>unsignedEthTx sender. Inr ''signed'')\<rparr>"

definition hugeGasPriceMeta :: TransactionMeta where
  "hugeGasPriceMeta =
     exampleMeta\<lparr>transaction := exampleTransaction\<lparr>tx_gasPrice := Some ''0x3635c9adc5dea00000''\<rparr>\<rparr>"

section \<open>The merge of local and remote entries\<close>

lemma find_Some_mem: "find P xs = Some x \<Longrightarrow> x \<in> set xs \<and> P x"
  by (induction xs) (auto split: if_splits)

text \<open>
  Claim C1, where the code departs from it. The Store holds, in this order, a failed record
  of nonce 5 without a transaction hash, a submitted record of nonce 5 with the hash
  \<open>0xf5\<close>, and a failed record of nonce 6 without a transaction hash, all sent from the
  wallet. The remote history holds the transaction \<open>0xf5\<close> of nonce 5 with twelve
  confirmations, which is normalized to \<open>confirmed\<close>, and the transaction \<open>0xf6\<close> of nonce
  6 with one confirmation, which is normalized to \<open>submitted\<close>.

  The remote entry of nonce 6 duplicates the failed record of nonce 6 and is not
  \<open>confirmed\<close>: the comment in \<open>filterForRemoteTx\<close> says that the local record is used as
  it is. The submitted record of nonce 5 duplicates the confirmed remote entry: the
  comment says that the local record is deleted. After \<open>fetchAll\<close> the published Store
  holds the submitted record of nonce 5 and the confirmed remote entry of the same
  transaction, and nothing of nonce 6: \<open>find\<close> stops at the failed record of nonce 5,
  which alone is marked for removal, and \<open>filterForLocalTx\<close> removes every local record
  whose transaction hash equals that of a marked record, \<open>undefined\<close> being equal to
  \<open>undefined\<close>.
\<close>

theorem fetchAll_loses_local_entry:
  "transactions storeWithFailed = [failedLocal5, exampleMeta, failedLocal6] \<and>
   map transactionHash [failedLocal5, exampleMeta, failedLocal6] = [None, Some ''0xf5'', None] \<and>
   status normalizedRemote5 = confirmed \<and> status normalizedRemote6 = submitted \<and>
   find (alreadyInLocal wallet normalizedRemote6) (localEtherTxs storeWithFailed)
     = Some failedLocal6 \<and>
   alreadyInLocal wallet normalizedRemote5 exampleMeta \<and> status exampleMeta = submitted \<and>
   find (alreadyInLocal wallet normalizedRemote5) (localEtherTxs storeWithFailed)
     = Some failedLocal5 \<and>
   fst (fetchAll exampleEnv wallet (Inr ([remoteEntry, remoteEntry6], [])) storeWithFailed)
     = Inr None \<and>
   map (\<lambda>t. (id' t, tx_nonce (transaction t), transactionHash t, status t))
     (transactions
        (snd (fetchAll exampleEnv wallet (Inr ([remoteEntry, remoteEntry6], [])) storeWithFailed)))
     = [(''local-5'', Some ''0x5'', Some ''0xf5'', submitted),
        (''u'', Some ''0x5'', Some ''0xf5'', confirmed)]"
  by code_simp

section \<open>When a remote entry duplicates a local entry\<close>

text \<open>
  Claim C2, as amended. A remote entry duplicates a local entry exactly when either both
  were sent from the queried wallet address (compared without regard to case) and their
  nonces are equal, or one of them was not sent from that address and their transaction
  hashes are equal. Where both were sent from the wallet and equal hashes go with equal
  nonces, this is the relation of the specification.
\<close>

theorem alreadyInLocal_wallet_nonce_else_hash:
  "(alreadyInLocal address remoteTx localTx \<longleftrightarrow>
      (toLowerCase (tx_from (transaction localTx)) = toLowerCase address \<and>
       toLowerCase (tx_from (transaction remoteTx)) = toLowerCase address \<and>
       tx_nonce (transaction localTx) = tx_nonce (transaction remoteTx)) \<or>
      ((toLowerCase (tx_from (transaction localTx)) \<noteq> toLowerCase address \<or>
        toLowerCase (tx_from (transaction remoteTx)) \<noteq> toLowerCase address) \<and>
       transactionHash localTx = transactionHash remoteTx)) \<and>
   (toLowerCase (tx_from (transaction localTx)) = toLowerCase address \<and>
    toLowerCase (tx_from (transaction remoteTx)) = toLowerCase address \<and>
    (transactionHash localTx = transactionHash remoteTx \<longrightarrow>
       tx_nonce (transaction localTx) = tx_nonce (transaction remoteTx)) \<longrightarrow>
    alreadyInLocal address remoteTx localTx = matchesBySenderNonceOrHash remoteTx localTx)"
  by (auto simp: alreadyInLocal_def matchesBySenderNonceOrHash_def)

theorem alreadyInLocal_wallet_nonce_else_hash_witness:
  "toLowerCase (tx_from (transaction exampleMeta)) = toLowerCase wallet \<and>
   toLowerCase (tx_from (transaction confirmedRemote5)) = toLowerCase wallet \<and>
   tx_nonce (transaction exampleMeta) = tx_nonce (transaction confirmedRemote5) \<and>
   alreadyInLocal wallet confirmedRemote5 exampleMeta \<and>
   matchesBySenderNonceOrHash confirmedRemote5 exampleMeta"
proof -
  have a: "toLowerCase (tx_from (transaction exampleMeta)) = toLowerCase wallet"
    by code_simp
  have b: "toLowerCase (tx_from (transaction confirmedRemote5)) = toLowerCase wallet"
    by code_simp
  have n: "tx_nonce (transaction exampleMeta) = tx_nonce (transaction confirmedRemote5)"
    by code_simp
  show ?thesis
    using alreadyInLocal_wallet_nonce_else_hash
            [of wallet confirmedRemote5 exampleMeta] a b n
    by blast
qed

text \<open>
  Two entries sent from the same address, which is not the queried wallet address, with
  the same nonce and different hashes (a transaction and its replacement): the
  specification's relation holds, the controller's does not.
\<close>

theorem alreadyInLocal_counterexample:
  "tx_from (transaction foreignLocal5) = tx_from (transaction foreignRemote5) \<and>
   tx_nonce (transaction foreignLocal5) = tx_nonce (transaction foreignRemote5) \<and>
   matchesBySenderNonceOrHash foreignRemote5 foreignLocal5 \<and>
   \<not> alreadyInLocal wallet foreignRemote5 foreignLocal5"
  by code_simp

section \<open>When fetchAll publishes\<close>

lemma update_fields:
  "updates (update txs c) = updates c + 1"
  "transactions (update txs c) = txs"
  "hub (update txs c) = hub c"
  "notified (update txs c) = (if disabled c then notified c else notified c @ [txs])"
  by (simp_all add: update_def notify_def)

text \<open>
  When \<open>fetchAll\<close> publishes. A run of \<open>fetchAll\<close> calls \<open>update\<close> exactly when it runs to
  its end (the network is one of 1, 3, 4, 42, the history is fetched and no \<open>getCode\<close>
  query is rejected) and the Store is empty, or a local entry was marked for removal, or a
  remote entry was added. A run that does not call \<open>update\<close> leaves the Store, the
  notifications and the events as they were.
\<close>

lemma fetchAll_calls_update_iff:
  "(updates (snd (fetchAll env address fetched c)) =
      (if network env \<in> set [''1'', ''3'', ''4'', ''42''] \<and>
          (case fetched of
             Inl e \<Rightarrow> False
           | Inr response \<Rightarrow>
               (case annotateAll env (tempAllTxs env c address response) of
                  Inl e \<Rightarrow> False
                | Inr annotated \<Rightarrow>
                    transactions c = [] \<or>
                    removeLocalTxs (localEtherTxs c) address
                      (remoteEtherTxs env c address (fst response)) \<noteq> [] \<or>
                    removeLocalTxs (localTokenTxs c) address
                      (remoteTokenTxs env c address (length (fst response)) (snd response)) \<noteq> [] \<or>
                    remoteTxsForAdd (localEtherTxs c) address
                      (remoteEtherTxs env c address (fst response)) \<noteq> [] \<or>
                    remoteTxsForAdd (localTokenTxs c) address
                      (remoteTokenTxs env c address (length (fst response)) (snd response)) \<noteq> []))
       then updates c + 1 else updates c)) \<and>
   (updates (snd (fetchAll env address fetched c)) = updates c \<longrightarrow>
      transactions (snd (fetchAll env address fetched c)) = transactions c \<and>
      notified (snd (fetchAll env address fetched c)) = notified c \<and>
      hub (snd (fetchAll env address fetched c)) = hub c)"
  by (auto simp: fetchAll_def fetchAllUpdates_def Let_def update_fields
      split: sum.splits)

text \<open>
  Claim C9, where the code departs from it. The comment above the test says that the state
  is updated only if new transactions were fetched. With an empty Store and an empty
  remote history nothing is fetched, nothing is added and nothing is removed, and
  \<open>fetchAll\<close> calls \<open>update\<close> and notifies the listeners with the empty list all the same:
  the first branch of the test asks only whether the Store is empty. With the same empty
  history and a Store that is not empty, \<open>fetchAll\<close> does not call \<open>update\<close>.
\<close>

theorem fetchAll_publishes_empty_store:
  "transactions emptyController = [] \<and>
   tempAllTxs exampleEnv emptyController wallet ([], []) = [] \<and>
   remoteTxsForAdd (localEtherTxs emptyController) wallet
     (remoteEtherTxs exampleEnv emptyController wallet []) = [] \<and>
   remoteTxsForAdd (localTokenTxs emptyController) wallet
     (remoteTokenTxs exampleEnv emptyController wallet 0 []) = [] \<and>
   removeLocalTxs (localEtherTxs emptyController) wallet
     (remoteEtherTxs exampleEnv emptyController wallet []) = [] \<and>
   removeLocalTxs (localTokenTxs emptyController) wallet
     (remoteTokenTxs exampleEnv emptyController wallet 0 []) = [] \<and>
   updates (snd (fetchAll exampleEnv wallet (Inr ([], [])) emptyController))
     = updates emptyController + 1 \<and>
   notified (snd (fetchAll exampleEnv wallet (Inr ([], [])) emptyController)) = [[]] \<and>
   transactions (snd (fetchAll exampleEnv wallet (Inr ([], [])) emptyController)) = [] \<and>
   updates (snd (fetchAll exampleEnv wallet (Inr ([], [])) storeWith5and6))
     = updates storeWith5and6 \<and>
   notified (snd (fetchAll exampleEnv wallet (Inr ([], [])) storeWith5and6)) = []"
  by code_simp

section \<open>Operations on an unknown identifier\<close>

text \<open>
  Claim C10. When no record of the Store has the identifier, \<open>cancelTransaction\<close>,
  \<open>stopTransaction\<close> and \<open>speedUpTransaction\<close> return without throwing and leave the
  controller as it was: the Store, the notifications and the events. This holds for every
  environment, also for one without a signing capability.
\<close>

theorem unknown_id_is_no_op:
  assumes "transactionID \<notin> set (map id' (transactions c))"
  shows "cancelTransaction transactionID c = c \<and>
         stopTransaction env transactionID c = (None, c) \<and>
         speedUpTransaction env transactionID c = (None, c)"
proof -
  have "find (\<lambda>t. id' t = transactionID) (transactions c) = None"
    using assms by (auto simp: find_None_iff)
  then show ?thesis
    by (simp add: cancelTransaction_def stopTransaction_def speedUpTransaction_def)
qed

theorem unknown_id_is_no_op_witness:
  "''unknown'' \<notin> set (map id' (transactions storeWith5and6)) \<and>
   sign exampleEnv = None \<and>
   cancelTransaction ''unknown'' storeWith5and6 = storeWith5and6 \<and>
   stopTransaction exampleEnv ''unknown'' storeWith5and6 = (None, storeWith5and6) \<and>
   speedUpTransaction exampleEnv ''unknown'' storeWith5and6 = (None, storeWith5and6)"
proof -
  have h: "''unknown'' \<notin> set (map id' (transactions storeWith5and6))"
    by code_simp
  have s: "sign exampleEnv = None"
    by (simp add: exampleEnv_def)
  show ?thesis
    using unknown_id_is_no_op [OF h, of exampleEnv] h s by simp
qed

section \<open>Gas estimation: a draft that brings its gas\<close>

text \<open>
  Claim C8. For a draft whose \<open>gas\<close> is set, \<open>estimateGas\<close> returns that gas value. When
  the draft has a gas price it issues no query at all; when it has none it issues the
  \<open>gasPrice\<close> query and nothing else, and returns the price the node answers (when the node
  rejects the query, the rejection is the result). No block, code or estimate query is
  issued in any of these cases.
\<close>

theorem estimateGas_provided_gas:
  assumes "tx_gas draft = Some gas"
  shows "case tx_gasPrice draft of
           Some providedGasPrice \<Rightarrow> estimateGas env draft = (Inr (gas, providedGasPrice), [])
         | None \<Rightarrow>
             (case query_gasPrice env of
                Inr gasPrice \<Rightarrow> estimateGas env draft = (Inr (gas, gasPrice), [GasPriceQuery])
              | Inl e \<Rightarrow> estimateGas env draft = (Inl e, [GasPriceQuery]))"
  using assms by (simp add: estimateGas_def split: option.splits sum.splits)

theorem estimateGas_provided_gas_witness:
  "tx_gas exampleDraft = Some ''0x5208'' \<and>
   estimateGas exampleEnv exampleDraft = (Inr (''0x5208'', ''0x3b9aca00''), [GasPriceQuery])"
proof -
  have g: "tx_gas exampleDraft = Some ''0x5208''"
    by (simp add: exampleDraft_def exampleTransaction_def)
  have p: "tx_gasPrice exampleDraft = None"
    by (simp add: exampleDraft_def)
  have q: "query_gasPrice exampleEnv = Inr ''0x3b9aca00''"
    by (simp add: exampleEnv_def)
  show ?thesis
    using estimateGas_provided_gas [OF g, of exampleEnv] g p q by simp
qed

section \<open>The status of a normalized remote entry\<close>

text \<open>
  Claim C7, as amended. An entry of the native list is \<open>failed\<close>, with an error attached,
  when its \<open>isError\<close> is not \<open>0\<close>; otherwise it is \<open>confirmed\<close> unless the number of its
  confirmations is less than 2, in which case it is \<open>submitted\<close> when the queried wallet
  address is the sender (compared without regard to case) and \<open>receiving\<close> when it is not.
  An entry of the token-transfer list follows the same rule without its first case: it is
  never \<open>failed\<close> and carries no error.
\<close>

theorem normalize_status:
  "status (normalizeTx env newId txMeta currentNetworkID currentChainId address) =
     (if es_isError txMeta \<noteq> ''0'' then failed
      else if number_lt (toNumber env (es_confirmations txMeta)) (Finite 2)
      then (if toLowerCase (es_from txMeta) = toLowerCase address then submitted else receiving)
      else confirmed) \<and>
   error (normalizeTx env newId txMeta currentNetworkID currentChainId address) =
     (if es_isError txMeta \<noteq> ''0'' then Some (Error ''Transaction failed'') else None) \<and>
   status (normalizeTokenTx env newId txMeta currentNetworkID currentChainId address) =
     (if number_lt (toNumber env (es_confirmations txMeta)) (Finite 2)
      then (if toLowerCase (es_from txMeta) = toLowerCase address then submitted else receiving)
      else confirmed) \<and>
   error (normalizeTokenTx env newId txMeta currentNetworkID currentChainId address) = None"
  by (simp add: normalizeTx_def normalizeTokenTx_def remoteStatus_def Let_def)

text \<open>
  A token-transfer entry that the remote source flags as errored, with twelve
  confirmations: it is normalized to \<open>confirmed\<close>, without an error.
\<close>

theorem normalize_status_counterexample:
  "es_isError (remoteEntry\<lparr>es_isError := ''1''\<rparr>) = ''1'' \<and>
   status (normalizeTokenTx exampleEnv ''u'' (remoteEntry\<lparr>es_isError := ''1''\<rparr>)
             ''1'' (Some ''1'') wallet) = confirmed \<and>
   error (normalizeTokenTx exampleEnv ''u'' (remoteEntry\<lparr>es_isError := ''1''\<rparr>)
             ''1'' (Some ''1'') wallet) = None"
  by code_simp

section \<open>Approval of an unknown identifier\<close>

lemma findIndexFrom_absent: "\<forall>x \<in> set xs. \<not> P x \<Longrightarrow> findIndexFrom P xs i = - 1"
  by (induction xs arbitrary: i) auto

text \<open>
  Claim C6, where the code departs from it. \<open>approveTransaction\<close> on an identifier that is
  not in the Store throws while it reads the record, after the mutex is acquired and
  before the \<open>try\<close> statement: the call ends with the \<open>TypeError\<close>, the mutex stays locked,
  no record is failed and no event is emitted.
\<close>

theorem approveTransaction_unknown_id_keeps_lock:
  assumes "\<not> mutexLocked c"
    and "transactionID \<notin> set (map id' (transactions c))"
  shows "approveTransaction env transactionID c =
           (Threw (TypeError ''Cannot read properties of undefined''), c\<lparr>mutexLocked := True\<rparr>)"
proof -
  have "findIndex (\<lambda>t. transactionID = id' t) (transactions c) = - 1"
    unfolding findIndex_def using assms(2) by (intro findIndexFrom_absent) auto
  then show ?thesis
    using assms(1) by (simp add: approveTransaction_def)
qed

theorem approveTransaction_unknown_id_keeps_lock_witness:
  "\<not> mutexLocked storeWith5and6 \<and>
   ''unknown'' \<notin> set (map id' (transactions storeWith5and6)) \<and>
   fst (approveTransaction exampleEnv ''unknown'' storeWith5and6)
     = Threw (TypeError ''Cannot read properties of undefined'') \<and>
   mutexLocked (snd (approveTransaction exampleEnv ''unknown'' storeWith5and6)) \<and>
   hub (snd (approveTransaction exampleEnv ''unknown'' storeWith5and6)) = [] \<and>
   transactions (snd (approveTransaction exampleEnv ''unknown'' storeWith5and6))
     = [exampleMeta, submittedLocal6]"
proof -
  have l: "\<not> mutexLocked storeWith5and6"
    by (simp add: storeWith5and6_def emptyController_def)
  have h: "''unknown'' \<notin> set (map id' (transactions storeWith5and6))"
    by code_simp
  have e: "hub storeWith5and6 = []"
    by (simp add: storeWith5and6_def emptyController_def)
  have t: "transactions storeWith5and6 = [exampleMeta, submittedLocal6]"
    by (simp add: storeWith5and6_def)
  show ?thesis
    using approveTransaction_unknown_id_keeps_lock [OF l h, of exampleEnv] l h e t by simp
qed

section \<open>The poller tick and the published records\<close>

text \<open>
  Claim C3, where the code departs from it. The Store publishes one \<open>submitted\<close> record of
  the current chain, the object at address 0, and the node reports the block of its
  transaction. After the tick the published array holds the same reference, and the object
  at address 0 is \<open>confirmed\<close>: the record of the state published before has been changed
  in place, and the event carries the same object.
\<close>

theorem queryTransactionStatuses_mutates_published_record:
  "stateTransactions publishedSubmitted = [0] \<and>
   status (objects publishedSubmitted ! 0) = submitted \<and>
   stateTransactions (queryTransactionStatuses exampleEnv publishedSubmitted) = [0] \<and>
   status (objects (queryTransactionStatuses exampleEnv publishedSubmitted) ! 0) = confirmed \<and>
   os_hub (queryTransactionStatuses exampleEnv publishedSubmitted)
     = [(''local-5:confirmed'', 0)] \<and>
   os_notified (queryTransactionStatuses exampleEnv publishedSubmitted) = [[0]]"
  by code_simp

section \<open>Cancel and speed-up\<close>

lemma bitlen_le: "n < 2 ^ m \<Longrightarrow> bitlen n \<le> m"
proof (induction m arbitrary: n)
  case 0
  then show ?case by (simp add: bitlen.simps)
next
  case (Suc m)
  show ?case
  proof (cases "n = 0")
    case True
    then show ?thesis by (simp add: bitlen.simps)
  next
    case False
    have "n div 2 < 2 ^ m" using Suc.prems by simp
    then have "bitlen (n div 2) \<le> m" by (rule Suc.IH)
    then show ?thesis using False by (subst bitlen.simps) simp
  qed
qed

lemma nearestDouble_small: "n < 2 ^ 53 \<Longrightarrow> nearestDouble n = n"
  by (simp add: nearestDouble_def bitlen_le)

lemma nearestDouble_lower:
  assumes "M * 2 ^ s \<le> N" and "bitlen N \<le> 53 + s"
  shows "M * 2 ^ s \<le> nearestDouble N"
proof (cases "bitlen N \<le> 53")
  case True
  then show ?thesis using assms(1) by (simp add: nearestDouble_def)
next
  case False
  define s0 where "s0 = bitlen N - 53"
  have s0: "s0 \<le> s" using assms(2) by (simp add: s0_def)
  have split: "(2::nat) ^ s = 2 ^ (s - s0) * 2 ^ s0"
    using s0 by (simp flip: power_add)
  have "M * 2 ^ (s - s0) * 2 ^ s0 \<le> N"
    using assms(1) split by (simp add: mult.assoc)
  then have "M * 2 ^ (s - s0) \<le> N div 2 ^ s0"
    by (simp add: less_eq_div_iff_mult_less_eq)
  then have "M * 2 ^ (s - s0) * 2 ^ s0 \<le> (N div 2 ^ s0) * 2 ^ s0"
    by (rule mult_le_mono1)
  then have low: "M * 2 ^ s \<le> (N div 2 ^ s0) * 2 ^ s0"
    using split by (simp add: mult.assoc)
  have "(N div 2 ^ s0) * 2 ^ s0 \<le> nearestDouble N"
    using False by (simp add: nearestDouble_def Let_def s0_def)
  with low show ?thesis by linarith
qed

lemma nearestDouble_upper:
  assumes "bitlen N \<le> 53 + s"
  shows "2 * nearestDouble N \<le> 2 * N + 2 ^ s"
proof (cases "bitlen N \<le> 53")
  case True
  then show ?thesis by (simp add: nearestDouble_def)
next
  case False
  define s0 where "s0 = bitlen N - 53"
  have s0: "s0 \<le> s" and pos: "0 < s0" using assms False by (simp_all add: s0_def)
  define q where "q = N div 2 ^ s0"
  define r where "r = N mod 2 ^ s0"
  have N: "N = q * 2 ^ s0 + r"
    unfolding q_def r_def by (rule div_mult_mod_eq [symmetric])
  have half: "(2::nat) ^ s0 = 2 * 2 ^ (s0 - 1)"
    using pos by (cases s0) simp_all
  have le: "(2::nat) ^ s0 \<le> 2 ^ s" using s0 by simp
  have nd: "nearestDouble N =
              (if r > 2 ^ (s0 - 1) \<or> (r = 2 ^ (s0 - 1) \<and> odd q) then q + 1 else q) * 2 ^ s0"
    using False by (simp add: nearestDouble_def Let_def s0_def q_def r_def)
  show ?thesis
  proof (cases "r > 2 ^ (s0 - 1) \<or> (r = 2 ^ (s0 - 1) \<and> odd q)")
    case True
    then have rge: "2 ^ (s0 - 1) \<le> r" by auto
    have "nearestDouble N = q * 2 ^ s0 + 2 ^ s0" using nd True by (simp add: algebra_simps)
    then show ?thesis using N rge half le by linarith
  next
    case False
    then have "nearestDouble N = q * 2 ^ s0" using nd by simp
    then show ?thesis using N by linarith
  qed
qed

lemma cancel_rate_floor:
  assumes "n < 2 ^ 48"
  shows "nearestDouble (n * 3) div 2 = n * 3 div 2"
proof -
  have "n * 3 < 2 ^ 53" using assms by simp
  then show ?thesis by (simp add: nearestDouble_small)
qed

lemma speed_up_rate_floor:
  assumes "n < 2 ^ 48"
  shows "nearestDouble (n * 2476979795053773) div 2 ^ 51 = n * 11 div 10"
proof -
  define N where "N = n * 2476979795053773"
  define F where "F = n * 11 div 10"
  have n: "n < 281474976710656" using assms by simp
  have F1: "10 * F \<le> 11 * n" and F2: "11 * n < 10 * F + 10"
    by (simp_all add: F_def)
  have N10: "10 * N = n * 24769797950537730" by (simp add: N_def)
  have bl: "bitlen N \<le> 53 + 47"
  proof -
    have "N < 2 ^ 100" using n by (simp add: N_def)
    then have "bitlen N \<le> 100" by (rule bitlen_le)
    then show ?thesis by simp
  qed
  have lowN: "(F * 16) * 2 ^ 47 \<le> N"
    using F1 N10 by simp
  have low: "F * 2251799813685248 \<le> nearestDouble N"
    using nearestDouble_lower [OF lowN bl] by simp
  have "2 * nearestDouble N \<le> 2 * N + 2 ^ 47"
    using nearestDouble_upper [OF bl] .
  then have up: "nearestDouble N < 2251799813685248 * Suc F"
    using F2 N10 n by simp
  have "nearestDouble N div 2251799813685248 = F"
    using low up by (intro div_nat_eqI) (simp_all add: mult.commute)
  then show ?thesis by (simp add: N_def F_def)
qed


lemma bumpedGasPrice_floor:
  assumes "parseInt16 (case existingGasPrice of None \<Rightarrow> ''0x0'' | Some g \<Rightarrow> g) = IntValue False n"
    and "n < 2 ^ 48"
  shows "bumpedGasPrice CANCEL_RATE existingGasPrice = addHexPrefix (natToString16 (n * 3 div 2))"
    and "bumpedGasPrice SPEED_UP_RATE existingGasPrice = addHexPrefix (natToString16 (n * 11 div 10))"
proof -
  have n: "n < 281474976710656" using assms(2) by simp
  have c3: "nearestDouble (n * 3) = n * 3"
    using n by (intro nearestDouble_small) simp
  have c1: "\<not> 2 ^ (1024 + 1) \<le> n * 3" using n by simp
  have c2: "n * 3 < 10 ^ 21 * 2 ^ 1" using n by simp
  show "bumpedGasPrice CANCEL_RATE existingGasPrice = addHexPrefix (natToString16 (n * 3 div 2))"
    using assms(1) c1 c2
    by (simp add: bumpedGasPrice_def truncateViaString_def c3 Let_def del: power_Suc)
  define p where "p = nearestDouble (n * 2476979795053773)"
  have fl: "p div 2 ^ 51 = n * 11 div 10"
    unfolding p_def using assms(2) by (rule speed_up_rate_floor)
  have "p div 2 ^ 51 < 2 ^ 49" using fl n by simp
  then have "p < 2 ^ 49 * 2 ^ 51"
    by (simp add: div_less_iff_less_mult del: power_Suc)
  then have small: "p < 2 ^ 100" by simp
  have s1: "\<not> 2 ^ (1024 + 51) \<le> p"
  proof -
    have "(2::nat) ^ 100 \<le> 2 ^ (1024 + 51)" by (rule power_increasing) simp_all
    then show ?thesis using small by linarith
  qed
  have s2: "p < 10 ^ 21 * 2 ^ 51" using small by simp
  show "bumpedGasPrice SPEED_UP_RATE existingGasPrice = addHexPrefix (natToString16 (n * 11 div 10))"
    using assms(1) s1 s2 fl
    by (simp add: bumpedGasPrice_def truncateViaString_def Let_def p_def [symmetric]
          del: power_Suc)
qed

lemma findIndexFrom_present:
  "\<exists>x \<in> set xs. P x \<Longrightarrow>
     findIndexFrom P xs i = i + int (length (takeWhile (\<lambda>x. \<not> P x) xs))"
proof (induction xs arbitrary: i)
  case Nil
  then show ?case by simp
next
  case (Cons a xs)
  show ?case
  proof (cases "P a")
    case True
    then show ?thesis by simp
  next
    case False
    then have "\<exists>x \<in> set xs. P x" using Cons.prems by auto
    then have "findIndexFrom P xs (i + 1) =
                 (i + 1) + int (length (takeWhile (\<lambda>x. \<not> P x) xs))"
      by (rule Cons.IH)
    then show ?thesis using False by simp
  qed
qed

lemma takeWhile_shorter:
  "\<exists>x \<in> set xs. \<not> Q x \<Longrightarrow> length (takeWhile Q xs) < length xs"
  by (induction xs) auto

lemma splice1_at:
  "k < length xs \<Longrightarrow> splice1 (int k) xs = take k xs @ drop (Suc k) xs"
  by (simp add: splice1_def Let_def min_def)

lemma remove_first_distinct:
  "a \<in> set (map f xs) \<Longrightarrow> distinct (map f xs) \<Longrightarrow>
     take (length (takeWhile (\<lambda>x. f x \<noteq> a) xs)) xs @
     drop (Suc (length (takeWhile (\<lambda>x. f x \<noteq> a) xs))) xs = filter (\<lambda>x. f x \<noteq> a) xs"
proof (induction xs)
  case Nil
  then show ?case by simp
next
  case (Cons x xs)
  show ?case
  proof (cases "f x = a")
    case True
    then have "a \<notin> set (map f xs)" using Cons.prems(2) by simp
    then have "\<forall>y \<in> set xs. f y \<noteq> a" by auto
    then have "filter (\<lambda>x. f x \<noteq> a) xs = xs" by (simp add: filter_id_conv)
    then show ?thesis using True by simp
  next
    case False
    then show ?thesis using Cons by simp
  qed
qed

lemma splice_found_distinct:
  assumes "find (\<lambda>t. id' t = a) xs = Some m" and "distinct (map id' xs)"
  shows "splice1 (findIndex (\<lambda>t. id' t = a) xs) xs = filter (\<lambda>t. id' t \<noteq> a) xs"
proof -
  have mem: "m \<in> set xs \<and> id' m = a" using assms(1) find_Some_mem by fastforce
  then have ex: "\<exists>x \<in> set xs. id' x = a" by blast
  have a: "a \<in> set (map id' xs)" using mem by force
  define k where "k = length (takeWhile (\<lambda>x. id' x \<noteq> a) xs)"
  have idx: "findIndex (\<lambda>t. id' t = a) xs = int k"
    unfolding findIndex_def k_def using findIndexFrom_present [OF ex, of 0] by simp
  have "k < length xs"
    unfolding k_def using ex by (intro takeWhile_shorter) simp
  then have "splice1 (int k) xs = take k xs @ drop (Suc k) xs" by (rule splice1_at)
  then show ?thesis
    using idx remove_first_distinct [OF a assms(2)] by (simp add: k_def)
qed

lemma replacement_ids:
  assumes "find (\<lambda>t. id' t = a) xs = Some m"
    and "distinct (map id' xs)"
    and "new \<notin> set (map id' xs)"
    and "id' r = new"
  shows "a \<notin> set (map id' (filter (\<lambda>t. id' t \<noteq> a) xs @ [r]))"
    and "distinct (map id' (filter (\<lambda>t. id' t \<noteq> a) xs @ [r]))"
    and "new \<noteq> a"
proof -
  have mem: "m \<in> set xs \<and> id' m = a" using assms(1) find_Some_mem by fastforce
  then have a: "a \<in> set (map id' xs)" by force
  show na: "new \<noteq> a" using a assms(3) by auto
  show "a \<notin> set (map id' (filter (\<lambda>t. id' t \<noteq> a) xs @ [r]))"
    using na assms(4) by auto
  have "distinct (map id' (filter (\<lambda>t. id' t \<noteq> a) xs))"
    using assms(2) by (rule distinct_map_filter)
  moreover have "new \<notin> set (map id' (filter (\<lambda>t. id' t \<noteq> a) xs))"
    using assms(3) by auto
  ultimately show "distinct (map id' (filter (\<lambda>t. id' t \<noteq> a) xs @ [r]))"
    using assms(4) by simp
qed

text \<open>
  Claim C5, as amended. Let the record with the identifier be in a Store of distinct
  identifiers, let the uuid generator return an identifier that no record of the Store
  carries, let a signing capability be configured, and let the gas price of the record
  read as a non-negative number below \<open>2 ^ 48\<close>. Then \<open>stopTransaction\<close> signs a transfer
  of value zero from the sender to the sender, with the nonce of the record and the gas
  price multiplied by 1.5 and rounded down, and \<open>speedUpTransaction\<close> signs the recipient,
  value, data and nonce of the record with the gas price multiplied by 1.1 and rounded
  down. Each of the two, when its signing and broadcasting succeed, leaves the Store
  without the record and with a replacement at its end, which has the status
  \<open>cancelSubmitted\<close> or \<open>accelerateSubmitted\<close> and a fresh identifier: the original
  identifier is no longer in the Store, and the identifiers of the Store are distinct as
  before.
\<close>

theorem fee_bump_replacement:
  assumes "find (\<lambda>t. id' t = transactionID) (transactions c) = Some transactionMeta"
    and "distinct (map id' (transactions c))"
    and "uuid env (uuidCount c) \<notin> set (map id' (transactions c))"
    and "sign env = Some signFn"
    and "parseInt16 (case tx_gasPrice (transaction transactionMeta) of
                       None \<Rightarrow> ''0x0'' | Some g \<Rightarrow> g) = IntValue False n"
    and "n < 2 ^ 48"
  shows "tx_from (stopTxParams transactionMeta) = tx_from (transaction transactionMeta) \<and>
         tx_to (stopTxParams transactionMeta) = Some (tx_from (transaction transactionMeta)) \<and>
         tx_value (stopTxParams transactionMeta) = Some ''0x0'' \<and>
         tx_nonce (stopTxParams transactionMeta) = tx_nonce (transaction transactionMeta) \<and>
         tx_gasPrice (stopTxParams transactionMeta)
           = Some (addHexPrefix (natToString16 (n * 3 div 2))) \<and>
         (\<forall>stopHash.
            signAndSend env signFn (stopTxParams transactionMeta)
              (tx_from (transaction transactionMeta)) = Inr stopHash \<longrightarrow>
            fst (stopTransaction env transactionID c) = None \<and>
            transactions (snd (stopTransaction env transactionID c)) =
              filter (\<lambda>t. id' t \<noteq> transactionID) (transactions c) @
              [transactionMeta
                 \<lparr> id' := uuid env (uuidCount c), time := now env,
                   transaction := stopTxParams transactionMeta,
                   transactionHash := Some stopHash, amount := None, isTokenTx := None,
                   transferInformation := None, status := cancelSubmitted \<rparr>] \<and>
            transactionID \<notin> set (map id' (transactions (snd (stopTransaction env transactionID c)))) \<and>
            distinct (map id' (transactions (snd (stopTransaction env transactionID c))))) \<and>
         tx_to (speedUpTxParams transactionMeta) = tx_to (transaction transactionMeta) \<and>
         tx_value (speedUpTxParams transactionMeta) = tx_value (transaction transactionMeta) \<and>
         tx_data (speedUpTxParams transactionMeta) = tx_data (transaction transactionMeta) \<and>
         tx_nonce (speedUpTxParams transactionMeta) = tx_nonce (transaction transactionMeta) \<and>
         tx_gasPrice (speedUpTxParams transactionMeta)
           = Some (addHexPrefix (natToString16 (n * 11 div 10))) \<and>
         (\<forall>speedUpHash.
            signAndSend env signFn (speedUpTxParams transactionMeta)
              (tx_from (transaction transactionMeta)) = Inr speedUpHash \<longrightarrow>
            fst (speedUpTransaction env transactionID c) = None \<and>
            transactions (snd (speedUpTransaction env transactionID c)) =
              filter (\<lambda>t. id' t \<noteq> transactionID) (transactions c) @
              [transactionMeta
                 \<lparr> id' := uuid env (uuidCount c), time := now env,
                   transaction :=
                     (transaction transactionMeta)
                       \<lparr>tx_gasPrice := Some (addHexPrefix (natToString16 (n * 11 div 10)))\<rparr>,
                   transactionHash := Some speedUpHash, status := accelerateSubmitted \<rparr>] \<and>
            transactionID \<notin> set (map id' (transactions (snd (speedUpTransaction env transactionID c)))) \<and>
            distinct (map id' (transactions (snd (speedUpTransaction env transactionID c)))))"
proof -
  note bump = bumpedGasPrice_floor [OF assms(5,6)]
  note gone = splice_found_distinct [OF assms(1,2)]
  have stopParams:
    "tx_from (stopTxParams transactionMeta) = tx_from (transaction transactionMeta) \<and>
     tx_to (stopTxParams transactionMeta) = Some (tx_from (transaction transactionMeta)) \<and>
     tx_value (stopTxParams transactionMeta) = Some ''0x0'' \<and>
     tx_nonce (stopTxParams transactionMeta) = tx_nonce (transaction transactionMeta) \<and>
     tx_gasPrice (stopTxParams transactionMeta)
       = Some (addHexPrefix (natToString16 (n * 3 div 2)))"
    by (simp add: stopTxParams_def bump)
  have speedParams:
    "tx_to (speedUpTxParams transactionMeta) = tx_to (transaction transactionMeta) \<and>
     tx_value (speedUpTxParams transactionMeta) = tx_value (transaction transactionMeta) \<and>
     tx_data (speedUpTxParams transactionMeta) = tx_data (transaction transactionMeta) \<and>
     tx_nonce (speedUpTxParams transactionMeta) = tx_nonce (transaction transactionMeta) \<and>
     tx_gasPrice (speedUpTxParams transactionMeta)
       = Some (addHexPrefix (natToString16 (n * 11 div 10)))"
    by (simp add: speedUpTxParams_def bump)
  have stop:
    "fst (stopTransaction env transactionID c) = None \<and>
     transactions (snd (stopTransaction env transactionID c)) =
       filter (\<lambda>t. id' t \<noteq> transactionID) (transactions c) @
       [transactionMeta
          \<lparr> id' := uuid env (uuidCount c), time := now env,
            transaction := stopTxParams transactionMeta,
            transactionHash := Some stopHash, amount := None, isTokenTx := None,
            transferInformation := None, status := cancelSubmitted \<rparr>] \<and>
     transactionID \<notin> set (map id' (transactions (snd (stopTransaction env transactionID c)))) \<and>
     distinct (map id' (transactions (snd (stopTransaction env transactionID c))))"
    if sent: "signAndSend env signFn (stopTxParams transactionMeta)
                (tx_from (transaction transactionMeta)) = Inr stopHash" for stopHash
  proof -
    define r where "r = transactionMeta
          \<lparr> id' := uuid env (uuidCount c), time := now env,
            transaction := stopTxParams transactionMeta,
            transactionHash := Some stopHash, amount := None, isTokenTx := None,
            transferInformation := None, status := cancelSubmitted \<rparr>"
    have idr: "id' r = uuid env (uuidCount c)" by (simp add: r_def)
    have run: "stopTransaction env transactionID c =
                 (None, replaceTransaction transactionID r (id' transactionMeta @ '':finished'')
                          (c\<lparr>uuidCount := Suc (uuidCount c)\<rparr>))"
      using assms(1,4) sent by (simp add: stopTransaction_def r_def)
    have txs: "transactions (snd (stopTransaction env transactionID c)) =
                 filter (\<lambda>t. id' t \<noteq> transactionID) (transactions c) @ [r]"
      using gone
      by (simp add: run replaceTransaction_def Let_def emit_def update_def notify_def)
    have ok: "fst (stopTransaction env transactionID c) = None"
      by (simp add: run)
    show ?thesis
      unfolding txs
      using replacement_ids(1,2) [OF assms(1,2,3) idr] ok
      by (simp add: r_def)
  qed
  have speed:
    "fst (speedUpTransaction env transactionID c) = None \<and>
     transactions (snd (speedUpTransaction env transactionID c)) =
       filter (\<lambda>t. id' t \<noteq> transactionID) (transactions c) @
       [transactionMeta
          \<lparr> id' := uuid env (uuidCount c), time := now env,
            transaction :=
              (transaction transactionMeta)
                \<lparr>tx_gasPrice := Some (addHexPrefix (natToString16 (n * 11 div 10)))\<rparr>,
            transactionHash := Some speedUpHash, status := accelerateSubmitted \<rparr>] \<and>
     transactionID \<notin> set (map id' (transactions (snd (speedUpTransaction env transactionID c)))) \<and>
     distinct (map id' (transactions (snd (speedUpTransaction env transactionID c))))"
    if sent: "signAndSend env signFn (speedUpTxParams transactionMeta)
                (tx_from (transaction transactionMeta)) = Inr speedUpHash" for speedUpHash
  proof -
    define r where "r = transactionMeta
          \<lparr> id' := uuid env (uuidCount c), time := now env,
            transaction :=
              (transaction transactionMeta)
                \<lparr>tx_gasPrice := Some (addHexPrefix (natToString16 (n * 11 div 10)))\<rparr>,
            transactionHash := Some speedUpHash, status := accelerateSubmitted \<rparr>"
    have idr: "id' r = uuid env (uuidCount c)" by (simp add: r_def)
    have run: "speedUpTransaction env transactionID c =
                 (None, replaceTransaction transactionID r (id' transactionMeta @ '':speedup'')
                          (c\<lparr>uuidCount := Suc (uuidCount c)\<rparr>))"
      using assms(1,4) sent by (simp add: speedUpTransaction_def r_def bump)
    have txs: "transactions (snd (speedUpTransaction env transactionID c)) =
                 filter (\<lambda>t. id' t \<noteq> transactionID) (transactions c) @ [r]"
      using gone
      by (simp add: run replaceTransaction_def Let_def emit_def update_def notify_def)
    have ok: "fst (speedUpTransaction env transactionID c) = None"
      by (simp add: run)
    show ?thesis
      unfolding txs
      using replacement_ids(1,2) [OF assms(1,2,3) idr] ok
      by (simp add: r_def)
  qed
  show ?thesis
    using stopParams speedParams stop speed by blast
qed

lemmas number_eval =
  parseInt16_def isWhiteSpace_def hexDigitValue_def digitsValue_def nearestDouble_def
  bitlen.simps Let_def bumpedGasPrice_def truncateViaString_def natToString16.simps
  hexDigit_def addHexPrefix_def decimalLength.simps firstDigit_def

lemma shortestFirstDigit_numeral:
  "shortestFirstDigit (numeral f) k v =
     (let scale = 10 ^ (decimalLength v - k); lo = v div scale
      in if nearestDouble (lo * scale) = v then firstDigit lo
         else if nearestDouble ((lo + 1) * scale) = v then firstDigit (lo + 1)
         else shortestFirstDigit (pred_numeral f) (Suc k) v)"
  by (simp add: numeral_eq_Suc shortestFirstDigit.simps)

lemma exponent_notation_digit:
  "shortestFirstDigit 17 (Suc 0) 1500000000000000000000 = Suc 0"
  by (simp add: number_eval shortestFirstDigit_numeral)

theorem fee_bump_replacement_witness:
  "find (\<lambda>t. id' t = ''local-5'') (transactions storeWith5and6) = Some exampleMeta \<and>
   distinct (map id' (transactions storeWith5and6)) \<and>
   uuid signingEnv (uuidCount storeWith5and6) = ''u'' \<and>
   ''u'' \<notin> set (map id' (transactions storeWith5and6)) \<and>
   tx_gasPrice (transaction exampleMeta) = Some ''0x14'' \<and>
   parseInt16 ''0x14'' = IntValue False 20 \<and>
   tx_gasPrice (stopTxParams exampleMeta) = Some ''0x1e'' \<and>
   tx_gasPrice (speedUpTxParams exampleMeta) = Some ''0x16'' \<and>
   map id' (transactions (snd (stopTransaction signingEnv ''local-5'' storeWith5and6)))
     = [''local-6'', ''u''] \<and>
   map status (transactions (snd (stopTransaction signingEnv ''local-5'' storeWith5and6)))
     = [submitted, cancelSubmitted] \<and>
   map id' (transactions (snd (speedUpTransaction signingEnv ''local-5'' storeWith5and6)))
     = [''local-6'', ''u''] \<and>
   map status (transactions (snd (speedUpTransaction signingEnv ''local-5'' storeWith5and6)))
     = [submitted, accelerateSubmitted]"
proof -
  have t: "transactions storeWith5and6 = [exampleMeta, submittedLocal6]"
    by (simp add: storeWith5and6_def)
  have ids: "id' exampleMeta = ''local-5''" "id' submittedLocal6 = ''local-6''"
    by (simp_all add: exampleMeta_def submittedLocal6_def)
  have st: "status submittedLocal6 = submitted"
    by (simp add: exampleMeta_def submittedLocal6_def)
  have f: "find (\<lambda>t. id' t = ''local-5'') (transactions storeWith5and6) = Some exampleMeta"
    by (simp add: t ids)
  have d: "distinct (map id' (transactions storeWith5and6))"
    by (simp add: t ids)
  have u: "uuid signingEnv (uuidCount storeWith5and6) = ''u''"
    by (simp add: signingEnv_def exampleEnv_def storeWith5and6_def emptyController_def)
  have fresh: "uuid signingEnv (uuidCount storeWith5and6)
                 \<notin> set (map id' (transactions storeWith5and6))"
    by (simp add: u t ids)
  have s: "sign signingEnv = Some (\<lambda>unsignedEthTx sender. Inr ''signed'')"
    by (simp add: signingEnv_def)
  have g: "tx_gasPrice (transaction exampleMeta) = Some ''0x14''"
    by (simp add: exampleMeta_def exampleTransaction_def)
  have p: "parseInt16 (case tx_gasPrice (transaction exampleMeta) of
                         None \<Rightarrow> ''0x0'' | Some g \<Rightarrow> g) = IntValue False 20"
    by (simp add: g number_eval)
  have n: "(20::nat) < 2 ^ 48"
    by simp
  have a: "signAndSend signingEnv (\<lambda>unsignedEthTx sender. Inr ''signed'')
             (stopTxParams exampleMeta) (tx_from (transaction exampleMeta)) = Inr ''0xabc''"
    by (simp add: signAndSend_def signingEnv_def exampleEnv_def)
  have b: "signAndSend signingEnv (\<lambda>unsignedEthTx sender. Inr ''signed'')
             (speedUpTxParams exampleMeta) (tx_from (transaction exampleMeta)) = Inr ''0xabc''"
    by (simp add: signAndSend_def signingEnv_def exampleEnv_def)
  have h1: "natToString16 (20 * 3 div 2) = ''1e''" "natToString16 (20 * 11 div 10) = ''16''"
    by (simp_all add: number_eval)
  have px: "addHexPrefix ''1e'' = ''0x1e''" "addHexPrefix ''16'' = ''0x16''"
    by (simp_all add: addHexPrefix_def)
  have p': "parseInt16 ''0x14'' = IntValue False 20"
    using p g by simp
  show ?thesis
    using fee_bump_replacement [OF f d fresh s p n] a b f d g p' t ids st u fresh h1 px
    by simp
qed

text \<open>
  Two gas prices on which the claim as stated fails. For \<open>10 ^ 21\<close> the product
  \<open>1.5e+21\<close> is written in exponent notation and read back as 1, so that the gas price of
  the cancellation is \<open>0x1\<close>. For \<open>2 ^ 53 + 1\<close>, which is not a double, the result is one
  less than the product rounded down.
\<close>

theorem fee_bump_counterexample:
  "parseInt16 ''0x3635c9adc5dea00000'' = IntValue False (10 ^ 21) \<and>
   tx_gasPrice (stopTxParams hugeGasPriceMeta) = Some ''0x1'' \<and>
   addHexPrefix (natToString16 (10 ^ 21 * 3 div 2)) = ''0x5150ae84a8cdf00000'' \<and>
   parseInt16 ''0x20000000000001'' = IntValue False (2 ^ 53) \<and>
   bumpedGasPrice CANCEL_RATE (Some ''0x20000000000001'') = ''0x30000000000000'' \<and>
   addHexPrefix (natToString16 ((2 ^ 53 + 1) * 3 div 2)) = ''0x30000000000001''"
proof -
  have a: "parseInt16 ''0x3635c9adc5dea00000'' = IntValue False (10 ^ 21)"
    by (simp add: number_eval)
  have b: "bumpedGasPrice CANCEL_RATE (Some ''0x3635c9adc5dea00000'') = ''0x1''"
    by (simp add: number_eval exponent_notation_digit)
  have b': "tx_gasPrice (stopTxParams hugeGasPriceMeta) = Some ''0x1''"
    by (simp add: stopTxParams_def hugeGasPriceMeta_def b)
  have c: "addHexPrefix (natToString16 (10 ^ 21 * 3 div 2)) = ''0x5150ae84a8cdf00000''"
    by (simp add: number_eval)
  have d: "parseInt16 ''0x20000000000001'' = IntValue False (2 ^ 53)"
    by (simp add: number_eval)
  have e: "bumpedGasPrice CANCEL_RATE (Some ''0x20000000000001'') = ''0x30000000000000''"
    by (simp add: number_eval)
  have f: "addHexPrefix (natToString16 ((2 ^ 53 + 1) * 3 div 2)) = ''0x30000000000001''"
    by (simp add: number_eval)
  show ?thesis
    using a b' c d e f by blast
qed

section \<open>Gas estimation: the padded estimate and the cap\<close>

lemma nine_tenths_floor:
  assumes "l < 67108864"
  shows "nearestDouble (l * 8106479329266893) div 2 ^ 53 = l * 9 div 10"
proof -
  define N where "N = l * 8106479329266893"
  define F where "F = l * 9 div 10"
  have F1: "10 * F \<le> 9 * l" and F2: "9 * l < 10 * F + 10"
    by (simp_all add: F_def)
  have N10: "10 * N = l * 81064793292668930" by (simp add: N_def)
  have bl: "bitlen N \<le> 53 + 26"
  proof -
    have "N < 2 ^ 79" using assms by (simp add: N_def)
    then have "bitlen N \<le> 79" by (rule bitlen_le)
    then show ?thesis by simp
  qed
  have lowN: "(F * 134217728) * 2 ^ 26 \<le> N"
    using F1 N10 by simp
  have low: "F * 9007199254740992 \<le> nearestDouble N"
    using nearestDouble_lower [OF lowN bl] by simp
  have "2 * nearestDouble N \<le> 2 * N + 2 ^ 26"
    using nearestDouble_upper [OF bl] .
  then have up: "nearestDouble N < 9007199254740992 * Suc F"
    using F2 N10 assms by simp
  have "nearestDouble N div 9007199254740992 = F"
    using low up by (intro div_nat_eqI) (simp_all add: mult.commute)
  then show ?thesis by (simp add: N_def F_def)
qed

lemma muln_one_word_nine_tenths:
  assumes "l < 67108864"
  shows "muln [l] NINE_TENTHS = [l * 9 div 10]"
proof -
  have f: "nearestDouble (l * 8106479329266893) div 9007199254740992 = l * 9 div 10"
    using nine_tenths_floor [OF assms] by simp
  have s: "l * 9 div 10 < 67108864" using assms by simp
  show ?thesis
    using s by (simp add: muln_def imulnStep_def NINE_TENTHS_def Let_def f)
qed

lemma wordsOf_one_word: "n < 67108864 \<Longrightarrow> wordsOf n = [n]"
  by (subst wordsOf.simps) simp

lemma wordsOf_two_words:
  "67108864 \<le> n \<Longrightarrow> n < 134217728 \<Longrightarrow> wordsOf n = [n mod 67108864, 1]"
proof -
  assume a: "67108864 \<le> n" "n < 134217728"
  then have d: "n div 67108864 = 1" by simp
  show ?thesis
    using a by (subst wordsOf.simps) (simp add: d wordsOf_one_word)
qed

lemma muln_one_word_three_halves:
  assumes "g < 67108864"
  shows "muln [g] THREE_HALVES = wordsOf (g * 3 div 2)"
proof -
  have "g * 3 < 2 ^ 53" using assms by simp
  then have n: "nearestDouble (g * 3) = g * 3" by (rule nearestDouble_small)
  show ?thesis
  proof (cases "g * 3 div 2 < 67108864")
    case True
    then show ?thesis
      by (simp add: muln_def imulnStep_def THREE_HALVES_def Let_def n wordsOf_one_word)
  next
    case False
    then have ge: "67108864 \<le> g * 3 div 2" by simp
    have lt: "g * 3 div 2 < 134217728" using assms by simp
    have d: "g * 3 div 2 div 67108864 = 1" using ge lt by simp
    show ?thesis
      using ge by (simp add: muln_def imulnStep_def THREE_HALVES_def Let_def n
          wordsOf_two_words [OF ge lt] d)
  qed
qed

lemma gt_one_word: "gt [a] [b] \<longleftrightarrow> a > b"
  by (simp add: gt_def ucmp_def)

lemma lt_wordsOf_one_word:
  assumes "p < 134217728"
  shows "lt (wordsOf p) [m] \<longleftrightarrow> p < m \<and> p < 67108864"
proof (cases "p < 67108864")
  case True
  then show ?thesis by (simp add: wordsOf_one_word lt_def ucmp_def)
next
  case False
  then have "67108864 \<le> p" by simp
  then show ?thesis
    using assms False by (simp add: wordsOf_two_words lt_def ucmp_def)
qed


text \<open>
  Below one word. When the block gas limit and the estimate of the node are numbers of one
  word (below \<open>2 ^ 26 = 67108864\<close>), \<open>estimateGas\<close> on a draft without gas and with a
  destination returns the raw estimate when it exceeds 0.9 times the block gas limit or
  the network is custom, otherwise 1.5 times the estimate when that is below 0.9 times
  the block gas limit, otherwise 0.9 times the block gas limit, each product rounded down;
  the draft sent with the query has 95% of the block gas limit as its gas.
\<close>

lemma estimateGasFromCode_one_word:
  assumes "hexToBN env gasLimit = [l]" and "l < 67108864"
    and "hexToBN env gasHex = [g]" and "g < 67108864"
    and "query_estimateGas env (estimatedTransaction env draft gasLimit) = Inr gasHex"
    and "isCustomNetwork env \<or>
         (truthy (tx_to draft) \<and>
          (truthy (tx_data draft) \<or> (truthy code \<and> code \<noteq> Some ''0x'')))"
  shows "estimateGasFromCode env draft gasPrice gasLimit code queries =
           (Inr (if g > l * 9 div 10 \<or> isCustomNetwork env then addHexPrefix gasHex
                 else if g * 3 div 2 < l * 9 div 10
                 then addHexPrefix (BNToHex env (wordsOf (g * 3 div 2)))
                 else addHexPrefix (BNToHex env (wordsOf (l * 9 div 10))),
                 gasPrice),
            queries @ [EstimateGasQuery (estimatedTransaction env draft gasLimit)])"
proof -
  have cap: "muln [l] NINE_TENTHS = [l * 9 div 10]"
    using assms(2) by (rule muln_one_word_nine_tenths)
  have capw: "wordsOf (l * 9 div 10) = [l * 9 div 10]"
    using assms(2) by (intro wordsOf_one_word) simp
  have padded: "muln [g] THREE_HALVES = wordsOf (g * 3 div 2)"
    using assms(4) by (rule muln_one_word_three_halves)
  have p: "g * 3 div 2 < 134217728" using assms(4) by simp
  have c: "l * 9 div 10 < 67108864" using assms(2) by simp
  have below: "lt (wordsOf (g * 3 div 2)) [l * 9 div 10] \<longleftrightarrow> g * 3 div 2 < l * 9 div 10"
    using lt_wordsOf_one_word [OF p, of "l * 9 div 10"] c by auto
  have reached:
    "\<not> (\<not> isCustomNetwork env \<and>
         (\<not> truthy (tx_to draft) \<or>
          (truthy (tx_to draft) \<and> \<not> truthy (tx_data draft) \<and>
           (\<not> truthy code \<or> code = Some ''0x''))))"
    using assms(6) by auto
  show ?thesis
    unfolding estimateGasFromCode_def if_not_P [OF reached]
    by (simp add: Let_def assms(1,3,5) cap capw padded gt_one_word below)
qed

lemma estimateGas_tiers_one_word:
  assumes "tx_gas draft = None"
    and "(case tx_gasPrice draft of None \<Rightarrow> query_gasPrice env | Some p \<Rightarrow> Inr p)
           = Inr gasPrice"
    and "query_getBlockByNumber env = Inr gasLimit"
    and "tx_to draft = Some to" and "to \<noteq> []"
    and "query_getCode env to = Inr code"
    and "isCustomNetwork env \<or> truthy (tx_data draft) \<or> (code \<noteq> [] \<and> code \<noteq> ''0x'')"
    and "query_estimateGas env (estimatedTransaction env draft gasLimit) = Inr gasHex"
    and "hexToBN env gasLimit = [l]" and "l < 67108864"
    and "hexToBN env gasHex = [g]" and "g < 67108864"
  shows "fst (estimateGas env draft) =
           Inr (if g > l * 9 div 10 \<or> isCustomNetwork env then addHexPrefix gasHex
                else if g * 3 div 2 < l * 9 div 10
                then addHexPrefix (BNToHex env (wordsOf (g * 3 div 2)))
                else addHexPrefix (BNToHex env (wordsOf (l * 9 div 10))),
                gasPrice) \<and>
         tx_gas (estimatedTransaction env draft gasLimit)
           = Some (BNToHex env (wordsOf (l * 19 div 20)))"
proof -
  have reach: "isCustomNetwork env \<or>
         (truthy (tx_to draft) \<and>
          (truthy (tx_data draft) \<or> (truthy (Some code) \<and> Some code \<noteq> Some ''0x'')))"
    using assms(4,5,7) by (auto simp: truthy_def)
  note tail = estimateGasFromCode_one_word [OF assms(9,10,11,12,8) reach]
  have working: "tx_gas (estimatedTransaction env draft gasLimit)
                   = Some (BNToHex env (wordsOf (l * 19 div 20)))"
    by (simp add: estimatedTransaction_def fractionBN_def valueOf_def assms(9))
  have run: "fst (estimateGas env draft) =
               fst (estimateGasFromCode env draft gasPrice gasLimit (Some code)
                      ((case tx_gasPrice draft of None \<Rightarrow> [GasPriceQuery] | Some p \<Rightarrow> []) @
                       [GetBlockByNumberQuery, GetCodeQuery to]))"
    using assms(1,2,3,4,5,6)
    by (cases "tx_gasPrice draft") (simp_all add: estimateGas_def)
  show ?thesis
    using working by (simp add: run tail)
qed

lemma toString16Loop_end:
  "\<not> i < length ws \<Longrightarrow> toString16Loop ws i off carry out = (out, carry)"
  by (subst toString16Loop.simps) simp

lemma toString16Loop_step:
  "i < length ws \<Longrightarrow>
   toString16Loop ws i off carry out =
     (if off + 2 \<ge> 26
      then toString16Loop ws i (off + 2 - 26) ((ws ! i div 2 ^ (24 - off)) mod 16777216)
             (if (ws ! i div 2 ^ (24 - off)) mod 16777216 \<noteq> 0 \<or> i - 1 \<noteq> length ws - 1
              then replicate (6 - length (natToString16 (((ws ! i * 2 ^ off) mod 16777216) OR carry)))
                     CHR ''0'' @
                   natToString16 (((ws ! i * 2 ^ off) mod 16777216) OR carry) @ out
              else natToString16 (((ws ! i * 2 ^ off) mod 16777216) OR carry) @ out)
      else toString16Loop ws (i + 1) (off + 2) ((ws ! i div 2 ^ (24 - off)) mod 16777216)
             (if (ws ! i div 2 ^ (24 - off)) mod 16777216 \<noteq> 0 \<or> i \<noteq> length ws - 1
              then replicate (6 - length (natToString16 (((ws ! i * 2 ^ off) mod 16777216) OR carry)))
                     CHR ''0'' @
                   natToString16 (((ws ! i * 2 ^ off) mod 16777216) OR carry) @ out
              else natToString16 (((ws ! i * 2 ^ off) mod 16777216) OR carry) @ out))"
  by (subst toString16Loop.simps) (simp add: Let_def)

lemma replicate_numeral_Cons:
  "replicate (numeral k) c = c # replicate (pred_numeral k) c"
  by (simp add: numeral_eq_Suc)

lemmas bn_eval =
  wordsOf.simps valueOf_def imulnStep_def muln_def ucmp_def gt_def lt_def
  toString16Loop_end toString16Loop_step toString16_def replicate_numeral_Cons
  NINE_TENTHS_def THREE_HALVES_def nearestDouble_def bitlen.simps Let_def
  natToString16.simps hexDigit_def hexDigitValue_def digitsValue_def addHexPrefix_def
  exampleHexToBN_def exampleBNToHex_def stripHexPrefix_def fractionBN_def

text \<open>
  Claim C4, where the code departs from it. The latest block has the gas limit 100000000
  (\<open>0x5f5e100\<close>, a number of two words), the network is not custom, and the node
  estimates 60000000 (\<open>0x3938700\<close>) for a draft without gas that carries data. The
  estimate does not exceed 0.9 times the block gas limit, which is 90000000, and 1.5 times
  the estimate is not below it: the claim gives 90000000 (\<open>0x55d4a80\<close>). The code returns
  \<open>0x1c3b0e6\<close>, which is 29602022 and less than the estimate itself: \<open>muln (0.9)\<close> drops
  the fraction of the product in every word, so that of the upper word 1 nothing is left
  and the lower word 32891136 gives 29602022, and the comparisons take the result, whose
  upper word is 0 and still in use, for a number of two words. The working gas value sent
  with the query, which \<open>fractionBN\<close> computes, is 95000000.
\<close>

theorem estimateGas_cap_below_estimate:
  "tx_gas contractDraft = None \<and> \<not> isCustomNetwork largeBlockEnv \<and>
   query_getBlockByNumber largeBlockEnv = Inr ''0x5f5e100'' \<and>
   valueOf (hexToBN largeBlockEnv ''0x5f5e100'') = 100000000 \<and>
   query_estimateGas largeBlockEnv
     (estimatedTransaction largeBlockEnv contractDraft ''0x5f5e100'') = Inr ''0x3938700'' \<and>
   valueOf (hexToBN largeBlockEnv ''0x3938700'') = 60000000 \<and>
   tx_gas (estimatedTransaction largeBlockEnv contractDraft ''0x5f5e100'') = Some ''0x5a995c0'' \<and>
   muln (hexToBN largeBlockEnv ''0x5f5e100'') NINE_TENTHS = [29602022, 0] \<and>
   valueOf [29602022, 0] = 29602022 \<and>
   estimateGas largeBlockEnv contractDraft =
     (Inr (''0x1c3b0e6'', ''0x14''),
      [GetBlockByNumberQuery, GetCodeQuery ''0x3c4d'',
       EstimateGasQuery (estimatedTransaction largeBlockEnv contractDraft ''0x5f5e100'')]) \<and>
   BNToHex largeBlockEnv (wordsOf (100000000 * 9 div 10)) = ''0x55d4a80''"
proof -
  have vals: "valueOf (exampleHexToBN ''0x5f5e100'') = 100000000"
    "valueOf (exampleHexToBN ''0x3938700'') = 60000000"
    "valueOf [29602022, 0] = 29602022"
    by (simp_all add: bn_eval)
  have cap: "muln (exampleHexToBN ''0x5f5e100'') NINE_TENTHS = [29602022, 0]"
    by (simp add: bn_eval)
  have capHex: "exampleBNToHex (muln (exampleHexToBN ''0x5f5e100'') NINE_TENTHS) = ''0x1c3b0e6''"
    by (simp add: bn_eval)
  have working: "exampleBNToHex (fractionBN (exampleHexToBN ''0x5f5e100'') 19 20) = ''0x5a995c0''"
    by (simp add: bn_eval)
  have claimed: "exampleBNToHex (wordsOf 90000000) = ''0x55d4a80''"
    by (simp add: bn_eval)
  have compare:
    "\<not> gt (exampleHexToBN ''0x3938700'') (muln (exampleHexToBN ''0x5f5e100'') NINE_TENTHS)"
    "\<not> lt (muln (exampleHexToBN ''0x3938700'') THREE_HALVES)
           (muln (exampleHexToBN ''0x5f5e100'') NINE_TENTHS)"
    by (simp_all add: bn_eval)
  have env: "hexToBN largeBlockEnv = exampleHexToBN" "BNToHex largeBlockEnv = exampleBNToHex"
    "\<not> isCustomNetwork largeBlockEnv"
    "query_getBlockByNumber largeBlockEnv = Inr ''0x5f5e100''"
    "query_estimateGas largeBlockEnv = (\<lambda>t. Inr ''0x3938700'')"
    "query_getCode largeBlockEnv = (\<lambda>a. Inr ''0x'')"
    by (simp_all add: largeBlockEnv_def exampleEnv_def)
  have draft: "tx_gas contractDraft = None" "tx_gasPrice contractDraft = Some ''0x14''"
    "tx_to contractDraft = Some ''0x3c4d''" "tx_data contractDraft = Some ''0xa9059cbb''"
    by (simp_all add: contractDraft_def exampleTransaction_def)
  have sent: "tx_gas (estimatedTransaction largeBlockEnv contractDraft ''0x5f5e100'')
                = Some ''0x5a995c0''"
    by (simp add: estimatedTransaction_def env working)
  have prefixed: "addHexPrefix ''0x1c3b0e6'' = ''0x1c3b0e6''"
    by (simp add: addHexPrefix_def)
  have run: "estimateGas largeBlockEnv contractDraft =
     (Inr (''0x1c3b0e6'', ''0x14''),
      [GetBlockByNumberQuery, GetCodeQuery ''0x3c4d'',
       EstimateGasQuery (estimatedTransaction largeBlockEnv contractDraft ''0x5f5e100'')])"
    by (simp add: estimateGas_def estimateGasFromCode_def env draft truthy_def Let_def
          compare capHex prefixed)
  show ?thesis
    using run sent by (simp add: env draft vals cap claimed)
qed

end
